theory Spec2Isabelle
  imports Main "HOL-Library.Sublist"
begin

section \<open>Errors\<close>

text \<open>
  Go errors are values. The constructors below are the error shapes the program builds or
  inspects:
  \<^item> \<open>errorString s\<close>: \<open>errors.New(s)\<close>, which is also what \<open>fmt.Errorf\<close> returns when the
    format has no \<open>%w\<close> verb;
  \<^item> \<open>wrapError s e\<close>: \<open>fmt.Errorf\<close> with one \<open>%w\<close> verb (message \<open>s\<close>, \<open>Unwrap\<close> gives \<open>e\<close>);
    any library wrapper with an \<open>Unwrap\<close> method has this shape too;
  \<^item> \<open>GenericAPIError code msg\<close>: a \<open>smithy.APIError\<close> of the storage client;
  \<^item> \<open>NoSuchKey msg\<close>: the typed \<open>s3types.NoSuchKey\<close> error, itself an API error.
  \<open>nil\<close> is \<open>None\<close> of \<open>error option\<close>.
\<close>

datatype error =
    errorString string
  | wrapError string error
  | GenericAPIError string string
  | NoSuchKey string

fun Error :: "error \<Rightarrow> string" where
  "Error (errorString s) = s"
| "Error (wrapError s e) = s"
| "Error (GenericAPIError code msg) = ''api error '' @ code @ '': '' @ msg"
| "Error (NoSuchKey msg) = ''NoSuchKey: '' @ msg"

text \<open>
  \<open>errors.As(err, &apiErr)\<close> with \<open>apiErr\<close> of interface type \<open>smithy.APIError\<close>: the first
  error of the \<open>Unwrap\<close> chain that is an API error; the result is its \<open>ErrorCode()\<close>.
\<close>

fun errors_As_APIError :: "error \<Rightarrow> string option" where
  "errors_As_APIError (errorString s) = None"
| "errors_As_APIError (wrapError s e) = errors_As_APIError e"
| "errors_As_APIError (GenericAPIError code msg) = Some code"
| "errors_As_APIError (NoSuchKey msg) = Some ''NoSuchKey''"

text \<open>\<open>errors.As(err, &noKey)\<close> with \<open>noKey\<close> of type \<open>*s3types.NoSuchKey\<close>.\<close>

fun errors_As_NoSuchKey :: "error \<Rightarrow> bool" where
  "errors_As_NoSuchKey (errorString s) = False"
| "errors_As_NoSuchKey (wrapError s e) = errors_As_NoSuchKey e"
| "errors_As_NoSuchKey (GenericAPIError code msg) = False"
| "errors_As_NoSuchKey (NoSuchKey msg) = True"

text \<open>
  How a call ends for the process: it returns, it panics, or \<open>log.Fatal\<close> exits the process.
\<close>

datatype 'a outcome = Returned 'a | Panic string | Fatal error

section \<open>Hex encoding\<close>

text \<open>
  Go strings and byte slices are byte sequences; \<open>string\<close> (a list of 8-bit \<open>char\<close>) models
  both. \<open>hex.EncodeToString\<close> writes two characters of \<open>hextable\<close> per byte: \<open>v >> 4\<close> and
  \<open>v & 0x0f\<close>.
\<close>

definition hextable :: string where
  "hextable = ''0123456789abcdef''"

definition hex_Encode :: "char \<Rightarrow> string" where
  "hex_Encode v = [hextable ! ((of_char v :: nat) div 16), hextable ! ((of_char v :: nat) mod 16)]"

definition hex_EncodeToString :: "string \<Rightarrow> string" where
  "hex_EncodeToString src = concat (map hex_Encode src)"

section \<open>Catalog types (pkg/types)\<close>

record PluginMaintainer =
  maintainer_Name :: string
  maintainer_Email :: string

record PluginThemeColors =
  Primary :: string
  Secondary :: string
  Tertiary :: string

record PluginTheme =
  Colors :: PluginThemeColors

record PluginMeta =
  meta_ID :: string
  meta_Version :: string
  meta_Name :: string
  meta_Icon :: string
  meta_Description :: string
  Repository :: string
  Website :: string
  Markdown :: string
  Maintainers :: "PluginMaintainer list"
  Tags :: "string list"
  Dependencies :: "string list"
  Capabilities :: "string list"
  Theme :: PluginTheme

text \<open>The zero value \<open>PluginMeta{}\<close>.\<close>

definition PluginMeta_zero :: PluginMeta where
  "PluginMeta_zero =
     \<lparr>meta_ID = [], meta_Version = [], meta_Name = [], meta_Icon = [], meta_Description = [],
      Repository = [], Website = [], Markdown = [], Maintainers = [], Tags = [],
      Dependencies = [], Capabilities = [],
      Theme = \<lparr>Colors = \<lparr>Primary = [], Secondary = [], Tertiary = []\<rparr>\<rparr>\<rparr>"

record PluginArchitectureInformation =
  Checksum :: string
  DownloadURL :: string
  Size :: int

text \<open>
  \<open>time.Time\<close> is an instant, modelled as an integer; the zero time is \<open>0\<close>. \<open>Architectures\<close>
  is a Go map.
\<close>

record PluginVersionInformation =
  Metadata :: PluginMeta
  Version :: string
  Architectures :: "string \<rightharpoonup> PluginArchitectureInformation"
  Created :: int
  Updated :: int

definition PluginVersionInformation_zero :: PluginVersionInformation where
  "PluginVersionInformation_zero =
     \<lparr>Metadata = PluginMeta_zero, Version = [], Architectures = Map.empty,
      Created = 0, Updated = 0\<rparr>"

record RegistryIndexPlugins =
  ID :: string
  Name :: string
  Icon :: string
  Description :: string
  Official :: bool
  LatestVersion :: PluginVersionInformation

text \<open>\<open>PluginIndex\<close> embeds \<open>RegistryIndexPlugins\<close>: a record extension.\<close>

record PluginIndex = RegistryIndexPlugins +
  Versions :: "PluginVersionInformation list"

record RegistryIndex =
  Plugins :: "RegistryIndexPlugins list"

definition PluginIndex_BucketPath :: "PluginIndex \<Rightarrow> string" where
  "PluginIndex_BucketPath i = ID i @ ''/index.json''"

section \<open>Releases and publish options (pkg/types)\<close>

record Release =
  Plugin :: string
  release_Version :: string
  OS :: string
  Arch :: string
  Path :: string

text \<open>\<open>fmt.Sprintf("%s/%s/%s-%s.tar.gz", r.Plugin, r.Version, r.OS, r.Arch)\<close>\<close>

definition BucketPath :: "Release \<Rightarrow> string" where
  "BucketPath r = Plugin r @ ''/'' @ release_Version r @ ''/'' @ OS r @ ''-'' @ Arch r @ ''.tar.gz''"

text \<open>\<open>fmt.Sprintf("%s_%s", r.OS, r.Arch)\<close>\<close>

definition OSArch :: "Release \<Rightarrow> string" where
  "OSArch r = OS r @ ''_'' @ Arch r"

record PublishOpts =
  opts_Plugin :: string
  opts_Version :: string
  MetadataPath :: string
  DarwinARM64 :: string
  DarwinAMD64 :: string
  WindowsARM64 :: string
  WindowsAMD64 :: string
  LinuxARM64 :: string
  LinuxAMD64 :: string

text \<open>One conditional \<open>append\<close> of \<open>ToReleases\<close>.\<close>

definition append_release ::
  "PublishOpts \<Rightarrow> string \<Rightarrow> string \<Rightarrow> string \<Rightarrow> Release list \<Rightarrow> Release list" where
  "append_release p os arch path releases =
     (if path \<noteq> [] then
        releases @ [\<lparr>Plugin = opts_Plugin p, release_Version = opts_Version p,
                      OS = os, Arch = arch, Path = path\<rparr>]
      else releases)"

definition ToReleases :: "PublishOpts \<Rightarrow> Release list" where
  "ToReleases p =
     (let releases = [];
          releases = append_release p ''darwin'' ''arm64'' (DarwinARM64 p) releases;
          releases = append_release p ''darwin'' ''amd64'' (DarwinAMD64 p) releases;
          releases = append_release p ''windows'' ''arm64'' (WindowsARM64 p) releases;
          releases = append_release p ''windows'' ''amd64'' (WindowsAMD64 p) releases;
          releases = append_release p ''linux'' ''arm64'' (LinuxARM64 p) releases;
          releases = append_release p ''linux'' ''amd64'' (LinuxAMD64 p) releases
      in releases)"

section \<open>The environment of the indexer and the publisher\<close>

text \<open>
  The program's collaborators are the local file system, the clock, the YAML and JSON
  codecs, SHA-256 and the object store. What each call to them answers is a parameter of
  the model, so that every theorem holds for every behaviour of the collaborator:
  \<^item> \<open>os_Open path\<close>: the error of \<open>os.Open\<close>, if any;
  \<^item> \<open>file_bytes path\<close>: the bytes read from the opened file;
  \<^item> \<open>io_Copy_err path\<close>: the error of reading the opened file to its end, if any;
  \<^item> \<open>os_Stat path\<close>: the error of \<open>os.Stat\<close>, or the size it reports;
  \<^item> \<open>sha256_Sum bytes\<close>: the SHA-256 digest of \<open>bytes\<close>;
  \<^item> \<open>time_Now n\<close>: what the \<open>n\<close>-th call of \<open>time.Now()\<close> within one merge returns;
  \<^item> \<open>yaml_Decode path\<close>: the result of decoding the opened descriptor file;
  \<^item> \<open>s3_GetObject_err key\<close>, \<open>s3_PutObject_err key\<close>, \<open>s3_Wait_err key\<close>: a failure of the
    request on \<open>key\<close> other than the key's absence, if any; \<open>io_ReadAll_err key\<close>: a failure
    of reading the body of the object fetched from \<open>key\<close>;
  \<^item> the JSON codecs of the two catalogs.
\<close>

record env =
  os_Open :: "string \<Rightarrow> error option"
  file_bytes :: "string \<Rightarrow> string"
  io_Copy_err :: "string \<Rightarrow> error option"
  os_Stat :: "string \<Rightarrow> error + int"
  sha256_Sum :: "string \<Rightarrow> string"
  time_Now :: "nat \<Rightarrow> int"
  yaml_Decode :: "string \<Rightarrow> error + PluginMeta"
  s3_GetObject_err :: "string \<Rightarrow> error option"
  io_ReadAll_err :: "string \<Rightarrow> error option"
  s3_PutObject_err :: "string \<Rightarrow> error option"
  s3_Wait_err :: "string \<Rightarrow> error option"
  json_Unmarshal_PluginIndex :: "string \<Rightarrow> error + PluginIndex"
  json_Unmarshal_RegistryIndex :: "string \<Rightarrow> error + RegistryIndex"
  json_Marshal_PluginIndex :: "PluginIndex \<Rightarrow> error + string"
  json_Marshal_RegistryIndex :: "RegistryIndex \<Rightarrow> error + string"

text \<open>
  The bucket is the only state the indexer and the publisher change: a map from object
  keys to object bodies. A \<open>GetObject\<close> on an absent key fails with an error that wraps
  \<open>NoSuchKey\<close>; a \<open>PutObject\<close> that does not fail stores the body under the key.
\<close>

type_synonym bucket = "string \<rightharpoonup> string"

definition s3_GetObject :: "env \<Rightarrow> bucket \<Rightarrow> string \<Rightarrow> error + string" where
  "s3_GetObject E b key =
     (case s3_GetObject_err E key of
        Some err \<Rightarrow> Inl err
      | None \<Rightarrow>
          (case b key of
             None \<Rightarrow> Inl (wrapError ''operation error S3: GetObject, NoSuchKey: The specified key does not exist.''
                           (NoSuchKey ''The specified key does not exist.''))
           | Some body \<Rightarrow> Inr body))"

definition s3_PutObject :: "env \<Rightarrow> bucket \<Rightarrow> string \<Rightarrow> string \<Rightarrow> error option \<times> bucket" where
  "s3_PutObject E b key body =
     (case s3_PutObject_err E key of
        Some err \<Rightarrow> (Some err, b)
      | None \<Rightarrow> (None, b(key \<mapsto> body)))"

section \<open>LoadMetadata (pkg/types)\<close>

definition LoadMetadata :: "env \<Rightarrow> string \<Rightarrow> PluginMeta" where
  "LoadMetadata E path =
     (case os_Open E path of
        Some err \<Rightarrow> PluginMeta_zero
      | None \<Rightarrow>
          (case yaml_Decode E path of
             Inl err \<Rightarrow> PluginMeta_zero
           | Inr meta \<Rightarrow> meta))"

section \<open>The indexer (pkg/indexer.go)\<close>

record Indexer =
  Indexer_bucket :: string

text \<open>
  The \<open>PluginArchitectureInformation\<close> that the loop of \<open>updateIndex\<close> records for a release
  whose file was opened and hashed: the checksum of the file's bytes, the release's bucket
  path, and the size \<open>os.Stat\<close> reports; when \<open>os.Stat\<close> fails the failure is printed and
  \<open>Size\<close> keeps its zero value.
\<close>

definition architectureInfo :: "env \<Rightarrow> Release \<Rightarrow> PluginArchitectureInformation" where
  "architectureInfo E release =
     (let info = \<lparr>Checksum = ''TODO'', DownloadURL = BucketPath release, Size = 0\<rparr>;
          info = info\<lparr>Checksum := hex_EncodeToString (sha256_Sum E (file_bytes E (Path release)))\<rparr>
      in case os_Stat E (Path release) of
           Inl err \<Rightarrow> info
         | Inr n \<Rightarrow> info\<lparr>Size := n\<rparr>)"

text \<open>
  The loop of \<open>updateIndex\<close> over the releases, on the version record being built. Console
  output (\<open>log.Printf\<close>, \<open>fmt.Println\<close>) changes no value and is left out; \<open>log.Fatal\<close> ends
  the process.
\<close>

fun updateIndex_loop ::
  "env \<Rightarrow> PluginIndex \<Rightarrow> Release list \<Rightarrow> PluginVersionInformation
     \<Rightarrow> PluginVersionInformation outcome" where
  "updateIndex_loop E index [] versionInfo = Returned versionInfo"
| "updateIndex_loop E index (release # releases) versionInfo =
     (if Plugin release \<noteq> ID index then updateIndex_loop E index releases versionInfo
      else
        (case os_Open E (Path release) of
           Some err \<Rightarrow> Fatal err
         | None \<Rightarrow>
             (case io_Copy_err E (Path release) of
                Some err \<Rightarrow> Fatal err
              | None \<Rightarrow>
                  updateIndex_loop E index releases
                    (versionInfo\<lparr>Architectures :=
                       (Architectures versionInfo)(OSArch release \<mapsto> architectureInfo E release)\<rparr>))))"

definition updateIndex ::
  "env \<Rightarrow> PluginIndex \<Rightarrow> Release list \<Rightarrow> PluginMeta \<Rightarrow> PluginIndex outcome" where
  "updateIndex E index releases metadata =
     (case releases of
        [] \<Rightarrow> Panic ''cannot submit an empty number of releases''
      | release0 # _ \<Rightarrow>
          (case updateIndex_loop E index releases
                  \<lparr>Metadata = metadata, Version = release_Version release0,
                   Architectures = Map.empty, Created = time_Now E 0, Updated = time_Now E 1\<rparr> of
             Returned versionInfo \<Rightarrow>
               Returned (index\<lparr>LatestVersion := versionInfo,
                               Versions := Versions index @ [versionInfo],
                               Description := meta_Description metadata,
                               Icon := meta_Icon metadata,
                               Name := meta_Name metadata\<rparr>)
           | Panic s \<Rightarrow> Panic s
           | Fatal err \<Rightarrow> Fatal err))"

definition getPluginIndex :: "env \<Rightarrow> bucket \<Rightarrow> string \<Rightarrow> error + PluginIndex" where
  "getPluginIndex E b plugin =
     (case s3_GetObject E b (plugin @ ''/index.json'') of
        Inl err \<Rightarrow>
          (if \<not> errors_As_NoSuchKey err
           then Inl (errorString (''couldn't get plugin index: '' @ Error err))
           else Inr \<lparr>ID = plugin, Name = plugin, Icon = [], Description = [], Official = False,
                     LatestVersion = PluginVersionInformation_zero, Versions = []\<rparr>)
      | Inr body \<Rightarrow>
          (case io_ReadAll_err E (plugin @ ''/index.json'') of
             Some err \<Rightarrow> Inl (errorString (''couldn't read object body: '' @ Error err))
           | None \<Rightarrow>
               (case json_Unmarshal_PluginIndex E body of
                  Inl err \<Rightarrow> Inl (errorString (''couldn't decode object body to json: '' @ Error err))
                | Inr index \<Rightarrow> Inr index)))"

definition getRegistryIndex :: "env \<Rightarrow> bucket \<Rightarrow> error + RegistryIndex" where
  "getRegistryIndex E b =
     (case s3_GetObject E b ''index.json'' of
        Inl err \<Rightarrow>
          (if \<not> errors_As_NoSuchKey err
           then Inl (errorString (''couldn't get registry index: '' @ Error err))
           else Inr \<lparr>Plugins = []\<rparr>)
      | Inr body \<Rightarrow>
          (case io_ReadAll_err E ''index.json'' of
             Some err \<Rightarrow> Inl (errorString (''couldn't read object body: '' @ Error err))
           | None \<Rightarrow>
               (case json_Unmarshal_RegistryIndex E body of
                  Inl err \<Rightarrow> Inl (errorString (''couldn't decode object body to json: '' @ Error err))
                | Inr index \<Rightarrow> Inr index)))"

definition store :: "env \<Rightarrow> Indexer \<Rightarrow> bucket \<Rightarrow> string \<Rightarrow> string \<Rightarrow> (error + string) \<times> bucket" where
  "store E i b body bucketPath =
     (case s3_PutObject E b bucketPath body of
        (Some err, b') \<Rightarrow>
          (if errors_As_APIError err = Some ''EntityTooLarge''
           then (Inl (errorString (''error while uploading object to '' @ Indexer_bucket i
                                    @ '': the object is too large'')), b')
           else (Inl (errorString (''couldn't upload plugin index to '' @ Indexer_bucket i @ '':''
                                    @ bucketPath @ '': '' @ Error err)), b'))
      | (None, b') \<Rightarrow>
          (case s3_Wait_err E bucketPath of
             Some err \<Rightarrow> (Inl (errorString (''failed attempt to wait for object '' @ bucketPath
                                              @ '' to exist'')), b')
           | None \<Rightarrow> (Inr bucketPath, b')))"

definition setPluginIndex :: "env \<Rightarrow> Indexer \<Rightarrow> bucket \<Rightarrow> PluginIndex \<Rightarrow> (error + string) \<times> bucket" where
  "setPluginIndex E i b index =
     (case json_Marshal_PluginIndex E index of
        Inl err \<Rightarrow> (Inl (errorString (''failed to upload plugin index: '' @ Error err)), b)
      | Inr body \<Rightarrow> store E i b body (PluginIndex_BucketPath index))"

definition setRegistryIndex :: "env \<Rightarrow> Indexer \<Rightarrow> bucket \<Rightarrow> RegistryIndex \<Rightarrow> (error + string) \<times> bucket" where
  "setRegistryIndex E i b index =
     (case json_Marshal_RegistryIndex E index of
        Inl err \<Rightarrow> (Inl (errorString (''failed to upload plugin index: '' @ Error err)), b)
      | Inr body \<Rightarrow> store E i b body ''index.json'')"

text \<open>
  The registry entry \<open>UpdateIndex\<close> writes for a plugin catalog, and its loop over the
  registry's entries: the first entry with the catalog's id is replaced and the loop
  stops (\<open>break\<close>); the result is the \<open>found\<close> flag and the entries.
\<close>

definition registryEntry :: "PluginIndex \<Rightarrow> RegistryIndexPlugins" where
  "registryEntry pluginIndex =
     \<lparr>ID = ID pluginIndex, Name = Name pluginIndex, Icon = Icon pluginIndex,
      Description = Description pluginIndex, Official = True,
      LatestVersion = LatestVersion pluginIndex\<rparr>"

fun UpdateIndex_loop ::
  "RegistryIndexPlugins list \<Rightarrow> PluginIndex \<Rightarrow> bool \<times> RegistryIndexPlugins list" where
  "UpdateIndex_loop [] pluginIndex = (False, [])"
| "UpdateIndex_loop (plugin # plugins) pluginIndex =
     (if ID plugin = ID pluginIndex then (True, registryEntry pluginIndex # plugins)
      else (case UpdateIndex_loop plugins pluginIndex of
              (found, plugins') \<Rightarrow> (found, plugin # plugins')))"

definition upsertRegistry :: "RegistryIndex \<Rightarrow> PluginIndex \<Rightarrow> RegistryIndex" where
  "upsertRegistry registryIndex pluginIndex =
     (case UpdateIndex_loop (Plugins registryIndex) pluginIndex of
        (found, plugins) \<Rightarrow>
          (if \<not> found then registryIndex\<lparr>Plugins := plugins @ [registryEntry pluginIndex]\<rparr>
           else registryIndex\<lparr>Plugins := plugins\<rparr>))"

definition UpdateIndex ::
  "env \<Rightarrow> Indexer \<Rightarrow> bucket \<Rightarrow> PublishOpts \<Rightarrow> error option outcome \<times> bucket" where
  "UpdateIndex E i b opts =
     (let metadata = LoadMetadata E (MetadataPath opts) in
      case getPluginIndex E b (opts_Plugin opts) of
        Inl err \<Rightarrow> (Returned (Some err), b)
      | Inr index \<Rightarrow>
          (case updateIndex E index (ToReleases opts) metadata of
             Panic s \<Rightarrow> (Panic s, b)
           | Fatal err \<Rightarrow> (Fatal err, b)
           | Returned pluginIndex \<Rightarrow>
               (case setPluginIndex E i b pluginIndex of
                  (Inl err, b1) \<Rightarrow> (Returned (Some err), b1)
                | (Inr _, b1) \<Rightarrow>
                    (case getRegistryIndex E b1 of
                       Inl err \<Rightarrow> (Returned (Some err), b1)
                     | Inr registryIndex \<Rightarrow>
                         (case setRegistryIndex E i b1 (upsertRegistry registryIndex pluginIndex) of
                            (Inl err, b2) \<Rightarrow> (Returned (Some err), b2)
                          | (Inr _, b2) \<Rightarrow> (Returned None, b2))))))"

section \<open>The publisher\<close>

record Publisher =
  Publisher_bucket :: string

definition Upload :: "env \<Rightarrow> Publisher \<Rightarrow> bucket \<Rightarrow> Release \<Rightarrow> (error + string) \<times> bucket" where
  "Upload E p b release =
     (case os_Open E (Path release) of
        Some err \<Rightarrow>
          (Inl (errorString (''couldn't open file '' @ Path release @ '' to upload: '' @ Error err)), b)
      | None \<Rightarrow>
          (case s3_PutObject E b (BucketPath release) (file_bytes E (Path release)) of
             (Some err, b') \<Rightarrow>
               (if errors_As_APIError err = Some ''EntityTooLarge''
                then (Inl (errorString (''error while uploading object to '' @ Publisher_bucket p
                                         @ '': the object is too large'')), b')
                else (Inl (errorString (''couldn't upload file '' @ Path release @ '' to ''
                                         @ Publisher_bucket p @ '':'' @ BucketPath release
                                         @ '': '' @ Error err)), b'))
           | (None, b') \<Rightarrow>
               (case s3_Wait_err E (BucketPath release) of
                  Some err \<Rightarrow> (Inl (errorString (''failed attempt to wait for object ''
                                                   @ BucketPath release @ '' to exist'')), b')
                | None \<Rightarrow> (Inr (BucketPath release), b'))))"

fun Publish :: "env \<Rightarrow> Publisher \<Rightarrow> bucket \<Rightarrow> Release list \<Rightarrow> error option \<times> bucket" where
  "Publish E p b [] = (None, b)"
| "Publish E p b (release # releases) =
     (case Upload E p b release of
        (Inl err, b') \<Rightarrow> (Some err, b')
      | (Inr releasePath, b') \<Rightarrow> Publish E p b' releases)"

section \<open>Platforms and the build orchestrator (pkg/packager)\<close>

record Platform =
  plat_OS :: string
  plat_Arch :: string

text \<open>\<open>fmt.Sprintf("%s_%s", p.OS, p.Arch)\<close>\<close>

definition Key :: "Platform \<Rightarrow> string" where
  "Key p = plat_OS p @ ''_'' @ plat_Arch p"

record BuildResult =
  Platform :: Platform
  OutputDir :: string
  Err :: "error option"

text \<open>An \<open>exec.Cmd\<close>: the program, its arguments, its working directory and environment.\<close>

record Cmd =
  cmd_Name :: string
  cmd_Args :: "string list"
  cmd_Dir :: string
  cmd_Env :: "string list"

text \<open>
  The collaborators of the packager: \<open>filepath.Join\<close>, \<open>os.Environ()\<close>, \<open>os.MkdirAll\<close> and the
  sub-process run by \<open>cmd.CombinedOutput()\<close>, which answers with its output and its error
  and may change which paths exist.
\<close>

record penv =
  filepath_Join :: "string list \<Rightarrow> string"
  os_Environ :: "string list"
  os_MkdirAll_err :: "string \<Rightarrow> error option"
  CombinedOutput :: "Cmd \<Rightarrow> string set \<Rightarrow> (string \<times> error option) \<times> string set"

text \<open>
  What the binary build step sees and changes: the paths on which \<open>os.Stat\<close> succeeds, and
  the sub-processes started so far, in order.
\<close>

record os_state =
  statable :: "string set"
  commands :: "Cmd list"

definition binName :: "Platform \<Rightarrow> string" where
  "binName plat = (if plat_OS plat = ''windows'' then ''plugin'' @ ''.exe'' else ''plugin'')"

definition buildBinary_outPath :: "penv \<Rightarrow> string \<Rightarrow> Platform \<Rightarrow> string" where
  "buildBinary_outPath P output plat = filepath_Join P [output, ''bin'', binName plat]"

definition buildBinary ::
  "penv \<Rightarrow> string \<Rightarrow> string \<Rightarrow> Platform \<Rightarrow> os_state \<Rightarrow> error option \<times> os_state" where
  "buildBinary P pluginDir output plat s =
     (if buildBinary_outPath P output plat \<in> statable s then (None, s)
      else
        (let cmd = \<lparr>cmd_Name = ''go'',
                    cmd_Args = [''build'', ''-o'', buildBinary_outPath P output plat, ''./pkg''],
                    cmd_Dir = pluginDir,
                    cmd_Env = os_Environ P @ [''GOOS='' @ plat_OS plat, ''GOARCH='' @ plat_Arch plat]\<rparr>
         in case CombinedOutput P cmd (statable s) of
              ((out, Some err), paths) \<Rightarrow>
                (Some (wrapError (''binary build failed for '' @ Key plat @ '': '' @ Error err
                                  @ [CHR 0x0A] @ out) err),
                 \<lparr>statable = paths, commands = commands s @ [cmd]\<rparr>)
            | ((out, None), paths) \<Rightarrow>
                (None, \<lparr>statable = paths, commands = commands s @ [cmd]\<rparr>)))"

text \<open>
  \<open>BuildAll\<close>. Step 1 fills the map \<open>outputDirs\<close>; a platform whose directory cannot be
  created gets no entry, and reading the map for it gives the empty string.
\<close>

fun BuildAll_outputDirs ::
  "penv \<Rightarrow> string \<Rightarrow> string \<Rightarrow> Platform list \<Rightarrow> (string \<rightharpoonup> string) \<Rightarrow> (string \<rightharpoonup> string)" where
  "BuildAll_outputDirs P pluginDir outdir [] outputDirs = outputDirs"
| "BuildAll_outputDirs P pluginDir outdir (plat # platforms) outputDirs =
     (let dir = filepath_Join P [pluginDir, outdir, Key plat] in
      case os_MkdirAll_err P (filepath_Join P [dir, ''bin'']) of
        Some err \<Rightarrow> BuildAll_outputDirs P pluginDir outdir platforms outputDirs
      | None \<Rightarrow> BuildAll_outputDirs P pluginDir outdir platforms (outputDirs(Key plat \<mapsto> dir)))"

definition map_index :: "(string \<rightharpoonup> string) \<Rightarrow> string \<Rightarrow> string" where
  "map_index m k = (case m k of None \<Rightarrow> [] | Some v \<Rightarrow> v)"

text \<open>
  Steps 3 and 4 run the UI build and the binary builds as concurrent tasks and step 4 ends
  with \<open>wg.Wait()\<close>. Each task writes its own result only (the channel, or its own index of
  \<open>binResults\<close>), so what \<open>BuildAll\<close> returns is a function of what the tasks returned,
  whatever their interleaving: \<open>uiErr\<close> is the value \<open>buildUIAndCopy\<close> sent on the channel,
  \<open>binErr i\<close> the value \<open>buildBinary\<close> returned in the task of index \<open>i\<close>. Step 2 (copying
  \<open>plugin.yaml\<close>) only prints its errors and is left out.
\<close>

definition binResults ::
  "(string \<rightharpoonup> string) \<Rightarrow> (nat \<Rightarrow> error option) \<Rightarrow> Platform list \<Rightarrow> BuildResult list" where
  "binResults outputDirs binErr platforms =
     map (\<lambda>(i, plat). \<lparr>Platform = plat, OutputDir = map_index outputDirs (Key plat), Err = binErr i\<rparr>)
       (enumerate 0 platforms)"

text \<open>The loop after \<open>wg.Wait()\<close>, run when the UI build failed with \<open>err\<close>.\<close>

definition markUIFailed :: "error \<Rightarrow> BuildResult \<Rightarrow> BuildResult" where
  "markUIFailed err r =
     (if Err r = None then r\<lparr>Err := Some (errorString (''UI build failed: '' @ Error err))\<rparr> else r)"

definition BuildAll ::
  "penv \<Rightarrow> error option \<Rightarrow> (nat \<Rightarrow> error option) \<Rightarrow> string \<Rightarrow> string \<Rightarrow> string
     \<Rightarrow> Platform list \<Rightarrow> BuildResult list" where
  "BuildAll P uiErr binErr pluginDir version outdir platforms =
     (let outputDirs = BuildAll_outputDirs P pluginDir outdir platforms Map.empty;
          results = binResults outputDirs binErr platforms
      in case uiErr of
           Some err \<Rightarrow> map (markUIFailed err) results
         | None \<Rightarrow> results)"

text \<open>
  An error carries a cause when the cause's message is part of its message: \<open>BuildAll\<close>
  formats the UI error with \<open>%v\<close>, so the message is the only link between the two.
\<close>

definition carries :: "error \<Rightarrow> error \<Rightarrow> bool" where
  "carries e cause = sublist (Error cause) (Error e)"

section \<open>The archiver (pkg/packager/compress.go)\<close>

text \<open>
  The local files \<open>TarGz\<close> works on: a map from paths, as written, to contents. \<open>lies_under d p\<close>:
  the path \<open>p\<close> is \<open>d\<close> or lies below it; \<open>os.RemoveAll\<close> removes these, and nothing for
  the empty path.
\<close>

type_synonym files = "string \<rightharpoonup> string"

definition lies_under :: "string \<Rightarrow> string \<Rightarrow> bool" where
  "lies_under d p = (p = d \<or> prefix (if d \<noteq> [] \<and> last d = CHR ''/'' then d else d @ ''/'') p)"

definition os_RemoveAll :: "string \<Rightarrow> files \<Rightarrow> files" where
  "os_RemoveAll d fs = (if d = [] then fs else (\<lambda>p. if lies_under d p then None else fs p))"

text \<open>
  \<open>tw\<close>, the tar writer, writes into \<open>gz\<close>, the gzip writer, and \<open>gz\<close> writes its compressed
  output into \<open>io.MultiWriter(outFile, hasher)\<close>. Walking the source directory and then
  \<open>tw.Close()\<close> is, seen from \<open>gz\<close>, a sequence of events: \<open>TarWrite p\<close>, the tar writer
  writes the uncompressed bytes \<open>p\<close> into \<open>gz\<close>; \<open>SourceError err\<close>, a step fails for a
  reason other than a write (a file cannot be read, a header cannot be built), which ends
  the walk.
\<close>

datatype event = TarWrite string | SourceError error

text \<open>
  \<^item> \<open>os_Create_err path\<close>: the error of \<open>os.Create\<close>, if any;
  \<^item> \<open>tar_events sourceDir fs\<close>: the events of walking \<open>sourceDir\<close> and closing \<open>tw\<close>; the
    events after a \<open>SourceError\<close> are the writes of the deferred \<open>tw.Close()\<close>;
  \<^item> \<open>gzip_Write hist p\<close>: the chunks of compressed bytes that \<open>gz.Write(p)\<close> writes to the
    multi-writer when \<open>hist\<close> is what was written into \<open>gz\<close> before (none while \<open>gz\<close>
    buffers); \<open>gzip_Close hist\<close>: the chunks that \<open>gz.Close()\<close> writes;
  \<^item> \<open>file_Write_res old p\<close>: \<open>outFile.Write(p)\<close> on a file holding \<open>old\<close>: \<open>None\<close> when all
    of \<open>p\<close> is written, \<open>Some (n, err)\<close> when it fails after \<open>n\<close> bytes;
  \<^item> \<open>hasher_Sum bytes\<close>: the SHA-256 digest of \<open>bytes\<close>, which is what \<open>hasher.Sum(nil)\<close>
    returns once \<open>bytes\<close> have been written to the hasher;
  \<^item> \<open>os_WriteFile_fail\<close>, \<open>os_RemoveAll_fail\<close>: \<open>None\<close> when the call succeeds, else its
    error and the files it leaves;
  \<^item> \<open>strconv_Quote\<close>: the \<open>%q\<close> verb.
\<close>

record tenv =
  os_Create_err :: "string \<Rightarrow> error option"
  tar_events :: "string \<Rightarrow> files \<Rightarrow> event list"
  gzip_Write :: "string \<Rightarrow> string \<Rightarrow> string list"
  gzip_Close :: "string \<Rightarrow> string list"
  file_Write_res :: "string \<Rightarrow> string \<Rightarrow> (nat \<times> error) option"
  hasher_Sum :: "string \<Rightarrow> string"
  os_WriteFile_fail :: "string \<Rightarrow> string \<Rightarrow> files \<Rightarrow> (error \<times> files) option"
  os_RemoveAll_fail :: "string \<Rightarrow> files \<Rightarrow> (error \<times> files) option"
  strconv_Quote :: "string \<Rightarrow> string"

text \<open>
  \<open>multiWriter.Write\<close> on the pair (bytes in \<open>outFile\<close>, bytes written to the hasher): the
  file first; the hasher, which never fails, only when the file took all of \<open>p\<close>.
\<close>

definition MultiWriter_Write ::
  "tenv \<Rightarrow> string \<Rightarrow> string \<times> string \<Rightarrow> error option \<times> (string \<times> string)" where
  "MultiWriter_Write T p s =
     (case s of (file, hashed) \<Rightarrow>
        (case file_Write_res T file p of
           Some (n, err) \<Rightarrow> (Some err, (file @ take n p, hashed))
         | None \<Rightarrow> (None, (file @ p, hashed @ p))))"

text \<open>The gzip writer passes its chunks to the multi-writer and stops at the first error.\<close>

fun write_chunks :: "tenv \<Rightarrow> string list \<Rightarrow> string \<times> string \<Rightarrow> error option \<times> (string \<times> string)" where
  "write_chunks T [] s = (None, s)"
| "write_chunks T (p # ps) s =
     (case MultiWriter_Write T p s of
        (Some err, s') \<Rightarrow> (Some err, s')
      | (None, s') \<Rightarrow> write_chunks T ps s')"

text \<open>
  The deferred \<open>tw.Close()\<close> and \<open>gz.Close()\<close> after a source error: the remaining writes
  are attempted, their errors dropped; the writers keep their first write error and write
  nothing after it.
\<close>

fun deferred_Close :: "tenv \<Rightarrow> event list \<Rightarrow> string \<Rightarrow> string \<times> string \<Rightarrow> string \<times> string" where
  "deferred_Close T [] hist s = snd (write_chunks T (gzip_Close T hist) s)"
| "deferred_Close T (TarWrite p # es) hist s =
     (case write_chunks T (gzip_Write T hist p) s of
        (Some err, s') \<Rightarrow> s'
      | (None, s') \<Rightarrow> deferred_Close T es (hist @ p) s')"
| "deferred_Close T (SourceError err # es) hist s = deferred_Close T es hist s"

text \<open>
  The walk, \<open>tw.Close()\<close> and, when the events are over, \<open>gz.Close()\<close>: the first error, of
  a write or of the source, is what \<open>TarGz\<close> returns. \<open>hist\<close> is what has been written into
  \<open>gz\<close> so far.
\<close>

fun write_archive ::
  "tenv \<Rightarrow> event list \<Rightarrow> string \<Rightarrow> string \<times> string \<Rightarrow> error option \<times> (string \<times> string)" where
  "write_archive T [] hist s = write_chunks T (gzip_Close T hist) s"
| "write_archive T (TarWrite p # es) hist s =
     (case write_chunks T (gzip_Write T hist p) s of
        (Some err, s') \<Rightarrow> (Some err, s')
      | (None, s') \<Rightarrow> write_archive T es (hist @ p) s')"
| "write_archive T (SourceError err # es) hist s = (Some err, deferred_Close T es hist s)"

text \<open>
  Two byte strings of a run without a source error: what the tar writer wrote into \<open>gz\<close>,
  the uncompressed archive, and what \<open>gz\<close> wrote into the multi-writer, the compressed one.
\<close>

fun tar_bytes :: "event list \<Rightarrow> string" where
  "tar_bytes [] = []"
| "tar_bytes (TarWrite p # es) = p @ tar_bytes es"
| "tar_bytes (SourceError err # es) = tar_bytes es"

fun gzip_bytes :: "tenv \<Rightarrow> event list \<Rightarrow> string \<Rightarrow> string" where
  "gzip_bytes T [] hist = concat (gzip_Close T hist)"
| "gzip_bytes T (TarWrite p # es) hist = concat (gzip_Write T hist p) @ gzip_bytes T es (hist @ p)"
| "gzip_bytes T (SourceError err # es) hist = gzip_bytes T es hist"

text \<open>
  \<open>TarGz\<close> up to and including the write of the sidecar file (lines 16 to 71): the result
  is the sidecar's path.
\<close>

definition TarGz_archive :: "tenv \<Rightarrow> string \<Rightarrow> string \<Rightarrow> files \<Rightarrow> (error + string) \<times> files" where
  "TarGz_archive T sourceDir outPath fs =
     (case os_Create_err T outPath of
        Some err \<Rightarrow> (Inl err, fs)
      | None \<Rightarrow>
          (let fs0 = fs(outPath \<mapsto> []) in
           case write_archive T (tar_events T sourceDir fs0) [] ([], []) of
             (Some err, (file, hashed)) \<Rightarrow> (Inl err, fs0(outPath \<mapsto> file))
           | (None, (file, hashed)) \<Rightarrow>
               (let fs1 = fs0(outPath \<mapsto> file);
                    checksum = hex_EncodeToString (hasher_Sum T hashed);
                    shaFile = outPath @ ''.sha256''
                in case os_WriteFile_fail T shaFile checksum fs1 of
                     Some (err, fs') \<Rightarrow>
                       (Inl (wrapError (''failed to write checksum: '' @ Error err) err), fs')
                   | None \<Rightarrow> (Inr shaFile, fs1(shaFile \<mapsto> checksum)))))"

text \<open>\<open>TarGz\<close>: the archive and its sidecar, then the cleanup of the source directory.\<close>

definition TarGz :: "tenv \<Rightarrow> string \<Rightarrow> string \<Rightarrow> files \<Rightarrow> (error + string \<times> string) \<times> files" where
  "TarGz T sourceDir outPath fs =
     (case TarGz_archive T sourceDir outPath fs of
        (Inl err, fs') \<Rightarrow> (Inl err, fs')
      | (Inr shaFile, fs1) \<Rightarrow>
          (case os_RemoveAll_fail T sourceDir fs1 of
             Some (err, fs') \<Rightarrow>
               (Inl (wrapError (''failed to remove source directory '' @ strconv_Quote T sourceDir
                                @ '': '' @ Error err) err), fs')
           | None \<Rightarrow> (Inr (outPath, shaFile), os_RemoveAll sourceDir fs1)))"

section \<open>Concrete inputs\<close>

text \<open>
  Inputs at which the theorems below are evaluated: one plugin \<open>p\<close>, its version \<open>1.2.0\<close>
  built for \<open>linux/amd64\<close>. In \<open>ex_env\<close> every call of a collaborator succeeds; the digest
  is a two-byte stand-in for SHA-256.
\<close>

definition ex_meta :: PluginMeta where
  "ex_meta =
     \<lparr>meta_ID = ''p'', meta_Version = ''1.2.0'', meta_Name = ''Plugin P'', meta_Icon = ''p.svg'',
      meta_Description = ''An example plugin'', Repository = ''https://example.com/p.git'',
      Website = ''https://example.com/p'', Markdown = [],
      Maintainers = [\<lparr>maintainer_Name = ''M'', maintainer_Email = ''m@example.com''\<rparr>],
      Tags = [], Dependencies = [], Capabilities = [''ui''],
      Theme = \<lparr>Colors = \<lparr>Primary = [], Secondary = [], Tertiary = []\<rparr>\<rparr>\<rparr>"

definition ex_env :: env where
  "ex_env =
     \<lparr>os_Open = (\<lambda>path. None),
      file_bytes = (\<lambda>path. ''abc''),
      io_Copy_err = (\<lambda>path. None),
      os_Stat = (\<lambda>path. Inr 3),
      sha256_Sum = (\<lambda>bytes. [CHR 0xBA, CHR 0x78]),
      time_Now = (\<lambda>n. 100),
      yaml_Decode = (\<lambda>path. Inr ex_meta),
      s3_GetObject_err = (\<lambda>key. None),
      io_ReadAll_err = (\<lambda>key. None),
      s3_PutObject_err = (\<lambda>key. None),
      s3_Wait_err = (\<lambda>key. None),
      json_Unmarshal_PluginIndex = (\<lambda>body. Inl (errorString ''unexpected end of JSON input'')),
      json_Unmarshal_RegistryIndex = (\<lambda>body. Inl (errorString ''unexpected end of JSON input'')),
      json_Marshal_PluginIndex = (\<lambda>index. Inr (''{plugin catalog of '' @ ID index @ ''}'')),
      json_Marshal_RegistryIndex = (\<lambda>index. Inr ''{registry catalog}'')\<rparr>"

definition ex_opts :: PublishOpts where
  "ex_opts =
     \<lparr>opts_Plugin = ''p'', opts_Version = ''1.2.0'', MetadataPath = ''plugin.yaml'',
      DarwinARM64 = [], DarwinAMD64 = [], WindowsARM64 = [], WindowsAMD64 = [],
      LinuxARM64 = [], LinuxAMD64 = ''dist/linux_amd64.tar.gz''\<rparr>"

definition ex_opts_empty :: PublishOpts where
  "ex_opts_empty =
     \<lparr>opts_Plugin = ''p'', opts_Version = ''1.2.0'', MetadataPath = ''plugin.yaml'',
      DarwinARM64 = [], DarwinAMD64 = [], WindowsARM64 = [], WindowsAMD64 = [],
      LinuxARM64 = [], LinuxAMD64 = []\<rparr>"

definition ex_release :: Release where
  "ex_release =
     \<lparr>Plugin = ''p'', release_Version = ''1.2.0'', OS = ''linux'', Arch = ''amd64'',
      Path = ''dist/linux_amd64.tar.gz''\<rparr>"

definition ex_indexer :: Indexer where
  "ex_indexer = \<lparr>Indexer_bucket = ''registry''\<rparr>"

definition ex_publisher :: Publisher where
  "ex_publisher = \<lparr>Publisher_bucket = ''registry''\<rparr>"

text \<open>
  The catalog \<open>getPluginIndex\<close> makes for \<open>p\<close> when the bucket has none, and the catalog after
  the first publish of \<open>1.2.0\<close> at time \<open>1\<close>.
\<close>

definition ex_fresh :: PluginIndex where
  "ex_fresh =
     \<lparr>ID = ''p'', Name = ''p'', Icon = [], Description = [], Official = False,
      LatestVersion = PluginVersionInformation_zero, Versions = []\<rparr>"

definition ex_info :: PluginArchitectureInformation where
  "ex_info = \<lparr>Checksum = ''ba78'', DownloadURL = ''p/1.2.0/linux-amd64.tar.gz'', Size = 3\<rparr>"

definition ex_old_record :: PluginVersionInformation where
  "ex_old_record =
     \<lparr>Metadata = ex_meta, Version = ''1.2.0'', Architectures = [''linux_amd64'' \<mapsto> ex_info],
      Created = 1, Updated = 1\<rparr>"

definition ex_new_record :: PluginVersionInformation where
  "ex_new_record =
     \<lparr>Metadata = ex_meta, Version = ''1.2.0'', Architectures = [''linux_amd64'' \<mapsto> ex_info],
      Created = 100, Updated = 100\<rparr>"

definition ex_catalog :: PluginIndex where
  "ex_catalog =
     \<lparr>ID = ''p'', Name = ''Plugin P'', Icon = ''p.svg'', Description = ''An example plugin'',
      Official = False, LatestVersion = ex_old_record, Versions = [ex_old_record]\<rparr>"

text \<open>The catalog of \<open>p\<close> after a first publish of \<open>1.2.0\<close> at time \<open>100\<close>.\<close>

definition ex_first :: PluginIndex where
  "ex_first =
     \<lparr>ID = ''p'', Name = ''Plugin P'', Icon = ''p.svg'', Description = ''An example plugin'',
      Official = False, LatestVersion = ex_new_record, Versions = [ex_new_record]\<rparr>"

text \<open>Environments in which one call fails.\<close>

definition ex_env_no_stat :: env where
  "ex_env_no_stat =
     ex_env\<lparr>os_Stat := (\<lambda>path. Inl (errorString ''stat dist/linux_amd64.tar.gz: no such file or directory''))\<rparr>"

definition ex_env_no_open :: env where
  "ex_env_no_open =
     ex_env\<lparr>os_Open := (\<lambda>path. if path = ''dist/linux_amd64.tar.gz''
                                  then Some (errorString ''open dist/linux_amd64.tar.gz: permission denied'')
                                  else None)\<rparr>"

definition ex_env_no_meta :: env where
  "ex_env_no_meta =
     ex_env\<lparr>os_Open := (\<lambda>path. if path = ''plugin.yaml''
                                  then Some (errorString ''open plugin.yaml: no such file or directory'')
                                  else None)\<rparr>"

definition ex_too_large :: error where
  "ex_too_large =
     wrapError ''operation error S3: PutObject, api error EntityTooLarge: Your proposed upload exceeds the maximum allowed size''
       (GenericAPIError ''EntityTooLarge'' ''Your proposed upload exceeds the maximum allowed size'')"

definition ex_access_denied :: error where
  "ex_access_denied =
     wrapError ''operation error S3: PutObject, api error AccessDenied: Access Denied''
       (GenericAPIError ''AccessDenied'' ''Access Denied'')"

definition ex_env_too_large :: env where
  "ex_env_too_large = ex_env\<lparr>s3_PutObject_err := (\<lambda>key. Some ex_too_large)\<rparr>"

definition ex_env_access_denied :: env where
  "ex_env_access_denied = ex_env\<lparr>s3_PutObject_err := (\<lambda>key. Some ex_access_denied)\<rparr>"

text \<open>A registry catalog that lists the plugins \<open>q\<close> and \<open>p\<close>, and one that lists \<open>q\<close> only.\<close>

definition ex_entry_q :: RegistryIndexPlugins where
  "ex_entry_q =
     \<lparr>ID = ''q'', Name = ''Plugin Q'', Icon = ''q.svg'', Description = ''Another plugin'',
      Official = True, LatestVersion = PluginVersionInformation_zero\<rparr>"

definition ex_entry_p :: RegistryIndexPlugins where
  "ex_entry_p =
     \<lparr>ID = ''p'', Name = ''Plugin P'', Icon = ''p.svg'', Description = ''An older description'',
      Official = False, LatestVersion = PluginVersionInformation_zero\<rparr>"

definition ex_registry :: RegistryIndex where
  "ex_registry = \<lparr>Plugins = [ex_entry_p, ex_entry_q]\<rparr>"

definition ex_registry_q :: RegistryIndex where
  "ex_registry_q = \<lparr>Plugins = [ex_entry_q]\<rparr>"

text \<open>
  An environment whose JSON codecs show what is written: a plugin catalog is rendered as
  its name, icon and description, a registry catalog as the id and the description of each
  entry, and the two registry bodies used below are decoded back.
\<close>

definition ex_render_entry :: "RegistryIndexPlugins \<Rightarrow> string" where
  "ex_render_entry plugin = ID plugin @ '':'' @ Description plugin @ '';''"

definition ex_env_json :: env where
  "ex_env_json =
     ex_env\<lparr>json_Marshal_PluginIndex :=
               (\<lambda>index. Inr (''name='' @ Name index @ '';icon='' @ Icon index
                               @ '';description='' @ Description index)),
            json_Marshal_RegistryIndex :=
               (\<lambda>index. Inr (concat (map ex_render_entry (Plugins index)))),
            json_Unmarshal_RegistryIndex :=
               (\<lambda>body. if body = ''p:An older description;q:Another plugin;'' then Inr ex_registry
                       else if body = ''q:Another plugin;'' then Inr ex_registry_q
                       else Inl (errorString ''unexpected end of JSON input''))\<rparr>"

definition ex_env_json_no_meta :: env where
  "ex_env_json_no_meta =
     ex_env_json\<lparr>os_Open := (\<lambda>path. if path = ''plugin.yaml''
                                       then Some (errorString ''open plugin.yaml: no such file or directory'')
                                       else None)\<rparr>"

definition ex_bucket :: bucket where
  "ex_bucket = [''index.json'' \<mapsto> ''p:An older description;q:Another plugin;'']"

definition ex_bucket_q :: bucket where
  "ex_bucket_q = [''index.json'' \<mapsto> ''q:Another plugin;'']"

text \<open>An environment in which fetching any object fails for a reason other than its absence.\<close>

definition ex_env_no_fetch :: env where
  "ex_env_no_fetch =
     ex_env\<lparr>s3_GetObject_err := (\<lambda>key. Some (errorString ''operation error S3: GetObject, request send failed''))\<rparr>"

text \<open>
  The packager's inputs: a join of clean, non-empty path elements; a compiler that succeeds
  and creates the file named after \<open>-o\<close>.
\<close>

fun ex_Join :: "string list \<Rightarrow> string" where
  "ex_Join [] = []"
| "ex_Join [a] = a"
| "ex_Join (a # b # elems) = a @ ''/'' @ ex_Join (b # elems)"

definition ex_penv :: penv where
  "ex_penv =
     \<lparr>filepath_Join = ex_Join,
      os_Environ = [''PATH=/usr/bin''],
      os_MkdirAll_err = (\<lambda>path. None),
      CombinedOutput = (\<lambda>cmd paths. (([], None), insert (cmd_Args cmd ! 2) paths))\<rparr>"

definition ex_linux :: Platform where
  "ex_linux = \<lparr>plat_OS = ''linux'', plat_Arch = ''amd64''\<rparr>"

definition ex_windows :: Platform where
  "ex_windows = \<lparr>plat_OS = ''windows'', plat_Arch = ''amd64''\<rparr>"

definition ex_built :: os_state where
  "ex_built = \<lparr>statable = {''plugin/out/linux_amd64/bin/plugin''}, commands = []\<rparr>"

definition ex_unbuilt :: os_state where
  "ex_unbuilt = \<lparr>statable = {}, commands = []\<rparr>"

definition ex_go_build :: Cmd where
  "ex_go_build =
     \<lparr>cmd_Name = ''go'',
      cmd_Args = [''build'', ''-o'', ''plugin/out/linux_amd64/bin/plugin'', ''./pkg''],
      cmd_Dir = ''plugin'',
      cmd_Env = [''PATH=/usr/bin'', ''GOOS=linux'', ''GOARCH=amd64'']\<rparr>"

definition ex_uiErr :: error where
  "ex_uiErr = errorString ''UI build error: exit status 1''"

definition ex_binErr :: error where
  "ex_binErr =
     wrapError ''binary build failed for linux_amd64: exit status 1'' (errorString ''exit status 1'')"

definition ex_all_fail :: "nat \<Rightarrow> error option" where
  "ex_all_fail i = Some ex_binErr"

definition ex_first_fails :: "nat \<Rightarrow> error option" where
  "ex_first_fails i = (if i = 0 then Some ex_binErr else None)"

text \<open>
  The archiver's inputs: every call succeeds; the tar writer writes the one file and its
  end marker; the stand-in for gzip writes a two-byte header at the first write and, at
  \<open>Close\<close>, its input reversed; the digest is a stand-in for SHA-256 (the first two bytes of
  what was hashed).
\<close>

definition ex_tenv :: tenv where
  "ex_tenv =
     \<lparr>os_Create_err = (\<lambda>path. None),
      tar_events = (\<lambda>sourceDir fs. [TarWrite ''id: p'', TarWrite ''.'']),
      gzip_Write = (\<lambda>hist p. if hist = [] then [[CHR 0x1F, CHR 0x8B]] else []),
      gzip_Close = (\<lambda>hist. [rev hist]),
      file_Write_res = (\<lambda>old p. None),
      hasher_Sum = (\<lambda>bytes. take 2 bytes),
      os_WriteFile_fail = (\<lambda>path bytes fs. None),
      os_RemoveAll_fail = (\<lambda>path fs. None),
      strconv_Quote = (\<lambda>s. [CHR 0x22] @ s @ [CHR 0x22])\<rparr>"

definition ex_files :: files where
  "ex_files = [''plugin/out/linux_amd64/plugin.yaml'' \<mapsto> ''id: p'']"

section \<open>Lemmas about the model\<close>

lemma ToReleases_empty:
  "DarwinARM64 p = [] \<Longrightarrow> DarwinAMD64 p = [] \<Longrightarrow> WindowsARM64 p = [] \<Longrightarrow> WindowsAMD64 p = []
   \<Longrightarrow> LinuxARM64 p = [] \<Longrightarrow> LinuxAMD64 p = [] \<Longrightarrow> ToReleases p = []"
  by (simp add: ToReleases_def append_release_def)

lemma UpdateIndex_loop_not_found:
  "ID pluginIndex \<notin> ID ` set plugins \<Longrightarrow> UpdateIndex_loop plugins pluginIndex = (False, plugins)"
  by (induction plugins) auto

lemma UpdateIndex_loop_found:
  "ID pluginIndex \<in> ID ` set plugins \<Longrightarrow>
   \<exists>pre old post. plugins = pre @ old # post \<and> ID old = ID pluginIndex \<and> ID pluginIndex \<notin> ID ` set pre \<and>
     UpdateIndex_loop plugins pluginIndex = (True, pre @ registryEntry pluginIndex # post)"
proof (induction plugins)
  case Nil
  then show ?case by simp
next
  case (Cons a plugins)
  show ?case
  proof (cases "ID a = ID pluginIndex")
    case True
    then have "a # plugins = [] @ a # plugins \<and> ID a = ID pluginIndex \<and> ID pluginIndex \<notin> ID ` set [] \<and>
      UpdateIndex_loop (a # plugins) pluginIndex = (True, [] @ registryEntry pluginIndex # plugins)"
      by simp
    then show ?thesis by blast
  next
    case False
    with Cons.prems have "ID pluginIndex \<in> ID ` set plugins" by auto
    from Cons.IH[OF this] obtain pre old post where
      h: "plugins = pre @ old # post" "ID old = ID pluginIndex" "ID pluginIndex \<notin> ID ` set pre"
         "UpdateIndex_loop plugins pluginIndex = (True, pre @ registryEntry pluginIndex # post)"
      by blast
    with False have "a # plugins = (a # pre) @ old # post \<and> ID old = ID pluginIndex \<and> ID pluginIndex \<notin> ID ` set (a # pre) \<and>
      UpdateIndex_loop (a # plugins) pluginIndex = (True, (a # pre) @ registryEntry pluginIndex # post)"
      by auto
    then show ?thesis by blast
  qed
qed

lemma buildBinary_skip:
  "buildBinary_outPath P output plat \<in> statable s \<Longrightarrow> buildBinary P pluginDir output plat s = (None, s)"
  by (simp add: buildBinary_def)

lemma updateIndex_loop_fields:
  "updateIndex_loop E index rs v = Returned v' \<Longrightarrow>
   Metadata v' = Metadata v \<and> Version v' = Version v \<and> Created v' = Created v \<and> Updated v' = Updated v"
  by (induction rs arbitrary: v) (auto split: if_splits option.splits)

lemma updateIndex_loop_recorded:
  "updateIndex_loop E index rs v = Returned v' \<Longrightarrow> Architectures v' k = Some info \<Longrightarrow>
   Architectures v k = Some info \<or>
   (\<exists>r\<in>set rs. Plugin r = ID index \<and> k = OSArch r \<and> info = architectureInfo E r)"
proof (induction rs arbitrary: v)
  case Nil
  then show ?case by simp
next
  case (Cons r rs)
  show ?case
  proof (cases "Plugin r \<noteq> ID index")
    case True
    with Cons.prems have "updateIndex_loop E index rs v = Returned v'" by simp
    from Cons.IH[OF this Cons.prems(2)] show ?thesis by auto
  next
    case False
    let ?v = "v\<lparr>Architectures := (Architectures v)(OSArch r \<mapsto> architectureInfo E r)\<rparr>"
    from False Cons.prems(1) have run: "updateIndex_loop E index rs ?v = Returned v'"
      by (auto split: option.splits)
    from Cons.IH[OF run Cons.prems(2)] False show ?thesis
      by (auto split: if_splits)
  qed
qed

lemma updateIndex_loop_Fatal:
  "r \<in> set rs \<Longrightarrow> Plugin r = ID index \<Longrightarrow>
   os_Open E (Path r) \<noteq> None \<or> io_Copy_err E (Path r) \<noteq> None \<Longrightarrow>
   \<exists>err. updateIndex_loop E index rs v = Fatal err"
  by (induction rs arbitrary: v) (auto split: option.splits)

lemma updateIndex_loop_Returned:
  "\<forall>r\<in>set rs. Plugin r = ID index \<longrightarrow> os_Open E (Path r) = None \<and> io_Copy_err E (Path r) = None \<Longrightarrow>
   \<exists>v'. updateIndex_loop E index rs v = Returned v'"
  by (induction rs arbitrary: v) (auto split: option.splits)

lemma updateIndex_loop_no_Panic: "updateIndex_loop E index rs v \<noteq> Panic s"
  by (induction rs arbitrary: v) (auto split: option.splits)

lemma updateIndex_Returned:
  assumes "updateIndex E index rs metadata = Returned index'"
  shows "Versions index' = Versions index @ [LatestVersion index']"
    and "Created (LatestVersion index') = time_Now E 0"
    and "Updated (LatestVersion index') = time_Now E 1"
    and "Metadata (LatestVersion index') = metadata"
    and "rs \<noteq> []" and "Version (LatestVersion index') = release_Version (hd rs)"
    and "Name index' = meta_Name metadata" and "Icon index' = meta_Icon metadata"
    and "Description index' = meta_Description metadata" and "ID index' = ID index"
    and "Official index' = Official index"
proof -
  from assms obtain r0 rest where rs: "rs = r0 # rest"
    by (cases rs) (auto simp: updateIndex_def)
  let ?v0 = "\<lparr>Metadata = metadata, Version = release_Version r0, Architectures = Map.empty,
              Created = time_Now E 0, Updated = time_Now E 1\<rparr>"
  from assms rs obtain v where
    loop: "updateIndex_loop E index rs ?v0 = Returned v" and
    res: "index' = index\<lparr>LatestVersion := v, Versions := Versions index @ [v],
                          Description := meta_Description metadata, Icon := meta_Icon metadata,
                          Name := meta_Name metadata\<rparr>"
    by (auto simp: updateIndex_def simp del: updateIndex_loop.simps split: outcome.splits)
  from updateIndex_loop_fields[OF loop]
  have f: "Metadata v = metadata" "Version v = release_Version r0" "Created v = time_Now E 0"
    "Updated v = time_Now E 1" by simp_all
  show "Versions index' = Versions index @ [LatestVersion index']" using res by simp
  show "Created (LatestVersion index') = time_Now E 0" using res f by simp
  show "Updated (LatestVersion index') = time_Now E 1" using res f by simp
  show "Metadata (LatestVersion index') = metadata" using res f by simp
  show "rs \<noteq> []" using rs by simp
  show "Version (LatestVersion index') = release_Version (hd rs)" using res f rs by simp
  show "Name index' = meta_Name metadata" using res by simp
  show "Icon index' = meta_Icon metadata" using res by simp
  show "Description index' = meta_Description metadata" using res by simp
  show "ID index' = ID index" using res by simp
  show "Official index' = Official index" using res by simp
qed

lemma store_Inr: "store E i b body k = (Inr r, b') \<Longrightarrow> r = k \<and> b' = b(k \<mapsto> body)"
  by (auto simp: store_def s3_PutObject_def split: option.splits if_splits)

lemma store_Inl: "store E i b body k = (Inl e, b') \<Longrightarrow> b' = b \<or> b' = b(k \<mapsto> body)"
  by (auto simp: store_def s3_PutObject_def split: option.splits if_splits)

lemma getPluginIndex_cases: "(\<exists>err. getPluginIndex E b plugin = Inl err) \<or> (\<exists>index. getPluginIndex E b plugin = Inr index)"
  by (cases "getPluginIndex E b plugin") auto

lemma UpdateIndex_success:
  assumes "UpdateIndex E i b opts = (Returned None, b')"
  shows "\<exists>index pluginIndex body registryIndex body'.
           getPluginIndex E b (opts_Plugin opts) = Inr index \<and>
           updateIndex E index (ToReleases opts) (LoadMetadata E (MetadataPath opts)) = Returned pluginIndex \<and>
           json_Marshal_PluginIndex E pluginIndex = Inr body \<and>
           getRegistryIndex E (b(PluginIndex_BucketPath pluginIndex \<mapsto> body)) = Inr registryIndex \<and>
           json_Marshal_RegistryIndex E (upsertRegistry registryIndex pluginIndex) = Inr body' \<and>
           b' = b(PluginIndex_BucketPath pluginIndex \<mapsto> body, ''index.json'' \<mapsto> body')"
proof -
  from assms obtain index where gi: "getPluginIndex E b (opts_Plugin opts) = Inr index"
    by (cases "getPluginIndex E b (opts_Plugin opts)") (auto simp: UpdateIndex_def Let_def)
  let ?m = "LoadMetadata E (MetadataPath opts)"
  from assms gi obtain pluginIndex where
    ui: "updateIndex E index (ToReleases opts) ?m = Returned pluginIndex"
    by (cases "updateIndex E index (ToReleases opts) ?m") (auto simp: UpdateIndex_def Let_def)
  from assms gi ui obtain r1 b1 where
    sp: "setPluginIndex E i b pluginIndex = (Inr r1, b1)"
    by (cases "setPluginIndex E i b pluginIndex") (auto simp: UpdateIndex_def Let_def split: sum.splits)
  from sp obtain body where
    mb: "json_Marshal_PluginIndex E pluginIndex = Inr body" and
    st: "store E i b body (PluginIndex_BucketPath pluginIndex) = (Inr r1, b1)"
    by (auto simp: setPluginIndex_def split: sum.splits)
  from store_Inr[OF st] have b1: "b1 = b(PluginIndex_BucketPath pluginIndex \<mapsto> body)" by simp
  from assms gi ui sp obtain registryIndex where
    gr: "getRegistryIndex E b1 = Inr registryIndex"
    by (cases "getRegistryIndex E b1") (auto simp: UpdateIndex_def Let_def)
  from assms gi ui sp gr obtain r2 where
    sr: "setRegistryIndex E i b1 (upsertRegistry registryIndex pluginIndex) = (Inr r2, b')"
    by (cases "setRegistryIndex E i b1 (upsertRegistry registryIndex pluginIndex)")
       (auto simp: UpdateIndex_def Let_def split: sum.splits)
  from sr obtain body' where
    mr: "json_Marshal_RegistryIndex E (upsertRegistry registryIndex pluginIndex) = Inr body'" and
    st': "store E i b1 body' ''index.json'' = (Inr r2, b')"
    by (auto simp: setRegistryIndex_def split: sum.splits)
  from store_Inr[OF st'] have "b' = b1(''index.json'' \<mapsto> body')" by simp
  with b1 gi ui mb gr mr show ?thesis by blast
qed

lemma UpdateIndex_no_releases:
  assumes "ToReleases opts = []"
  shows "UpdateIndex E i b opts =
           (case getPluginIndex E b (opts_Plugin opts) of
              Inl err \<Rightarrow> (Returned (Some err), b)
            | Inr index \<Rightarrow> (Panic ''cannot submit an empty number of releases'', b))"
  using assms by (simp add: UpdateIndex_def updateIndex_def Let_def split: sum.splits)

lemma updateIndex_Fatal:
  assumes "r \<in> set releases" "Plugin r = ID index"
    "os_Open E (Path r) \<noteq> None \<or> io_Copy_err E (Path r) \<noteq> None"
  shows "\<exists>err. updateIndex E index releases metadata = Fatal err"
proof -
  from assms(1) obtain r0 rest where rs: "releases = r0 # rest" by (cases releases) auto
  let ?v0 = "\<lparr>Metadata = metadata, Version = release_Version r0, Architectures = Map.empty,
              Created = time_Now E 0, Updated = time_Now E 1\<rparr>"
  from updateIndex_loop_Fatal[OF assms, of ?v0] obtain err where
    "updateIndex_loop E index releases ?v0 = Fatal err" by blast
  with rs show ?thesis by (simp add: updateIndex_def del: updateIndex_loop.simps)
qed

lemma updateIndex_Returned_ex:
  assumes "releases \<noteq> []"
    "\<forall>r\<in>set releases. Plugin r = ID index \<longrightarrow> os_Open E (Path r) = None \<and> io_Copy_err E (Path r) = None"
  shows "\<exists>index'. updateIndex E index releases metadata = Returned index'"
proof -
  from assms(1) obtain r0 rest where rs: "releases = r0 # rest" by (cases releases) auto
  let ?v0 = "\<lparr>Metadata = metadata, Version = release_Version r0, Architectures = Map.empty,
              Created = time_Now E 0, Updated = time_Now E 1\<rparr>"
  from updateIndex_loop_Returned[OF assms(2), of ?v0] obtain v where
    "updateIndex_loop E index releases ?v0 = Returned v" by blast
  with rs show ?thesis by (simp add: updateIndex_def del: updateIndex_loop.simps)
qed

lemma updateIndex_recorded:
  assumes "updateIndex E index releases metadata = Returned index'"
    "Architectures (LatestVersion index') k = Some info"
  shows "\<exists>r\<in>set releases. Plugin r = ID index \<and> k = OSArch r \<and> info = architectureInfo E r"
proof -
  from assms(1) obtain r0 rest where rs: "releases = r0 # rest"
    by (cases releases) (auto simp: updateIndex_def)
  let ?v0 = "\<lparr>Metadata = metadata, Version = release_Version r0, Architectures = Map.empty,
              Created = time_Now E 0, Updated = time_Now E 1\<rparr>"
  from assms(1) rs obtain v where
    loop: "updateIndex_loop E index releases ?v0 = Returned v" and lv: "LatestVersion index' = v"
    by (auto simp: updateIndex_def simp del: updateIndex_loop.simps split: outcome.splits)
  from updateIndex_loop_recorded[OF loop, of k info] assms(2) lv show ?thesis by simp
qed

lemma architectureInfo_fields:
  "DownloadURL (architectureInfo E r) = BucketPath r"
  "Checksum (architectureInfo E r) = hex_EncodeToString (sha256_Sum E (file_bytes E (Path r)))"
  "Size (architectureInfo E r) = (case os_Stat E (Path r) of Inl err \<Rightarrow> 0 | Inr n \<Rightarrow> n)"
  by (simp_all add: architectureInfo_def Let_def split: sum.splits)

lemma Upload_Inr:
  "Upload E p b r = (Inr key, b') \<Longrightarrow> key = BucketPath r \<and> b' = b(BucketPath r \<mapsto> file_bytes E (Path r))"
  by (auto simp: Upload_def s3_PutObject_def split: option.splits if_splits)

lemma BuildAll_length:
  "length (BuildAll P uiErr binErr pluginDir version outdir platforms) = length platforms"
  by (simp add: BuildAll_def binResults_def Let_def split: option.splits)

lemma binResults_nth:
  "i < length platforms \<Longrightarrow>
   binResults outputDirs binErr platforms ! i =
     \<lparr>Platform = platforms ! i, OutputDir = map_index outputDirs (Key (platforms ! i)), Err = binErr i\<rparr>"
  by (simp add: binResults_def nth_enumerate_eq)

lemma length_binResults: "length (binResults outputDirs binErr platforms) = length platforms"
  by (simp add: binResults_def)

lemma BuildAll_nth_Err:
  assumes "i < length platforms"
  shows "Err (BuildAll P (Some err) binErr pluginDir version outdir platforms ! i) =
     (case binErr i of
        None \<Rightarrow> Some (errorString (''UI build failed: '' @ Error err))
      | Some e \<Rightarrow> Some e)"
proof -
  let ?dirs = "BuildAll_outputDirs P pluginDir outdir platforms Map.empty"
  have "BuildAll P (Some err) binErr pluginDir version outdir platforms ! i =
        markUIFailed err (binResults ?dirs binErr platforms ! i)"
    using assms by (simp add: BuildAll_def Let_def length_binResults)
  then show ?thesis
    using assms by (simp add: binResults_nth markUIFailed_def split: option.splits)
qed

lemma BuildAll_nth_Platform:
  "i < length platforms \<Longrightarrow>
   Platform (BuildAll P uiErr binErr pluginDir version outdir platforms ! i) = platforms ! i"
  by (cases uiErr) (simp_all add: BuildAll_def Let_def binResults_nth markUIFailed_def length_binResults)

lemma write_chunks_None:
  "write_chunks T ps (fbytes, hashed) = (None, (fbytes', hashed')) \<Longrightarrow>
   fbytes' = fbytes @ concat ps \<and> hashed' = hashed @ concat ps"
proof (induction ps arbitrary: fbytes hashed)
  case Nil
  then show ?case by simp
next
  case (Cons p ps)
  from Cons.prems have w: "file_Write_res T fbytes p = None"
    and run: "write_chunks T ps (fbytes @ p, hashed @ p) = (None, (fbytes', hashed'))"
    by (auto simp: MultiWriter_Write_def split: option.splits prod.splits)
  from Cons.IH[OF run] show ?case by simp
qed

lemma write_archive_None:
  "write_archive T es hist (fbytes, hashed) = (None, (fbytes', hashed')) \<Longrightarrow>
   fbytes' = fbytes @ gzip_bytes T es hist \<and> hashed' = hashed @ gzip_bytes T es hist"
proof (induction es arbitrary: hist fbytes hashed)
  case Nil
  then show ?case by (simp add: write_chunks_None)
next
  case (Cons e es)
  show ?case
  proof (cases e)
    case (TarWrite p)
    with Cons.prems obtain f1 h1 where
      w: "write_chunks T (gzip_Write T hist p) (fbytes, hashed) = (None, (f1, h1))" and
      run: "write_archive T es (hist @ p) (f1, h1) = (None, (fbytes', hashed'))"
      by (auto split: option.splits prod.splits)
    from write_chunks_None[OF w] Cons.IH[OF run] TarWrite show ?thesis by simp
  next
    case (SourceError err)
    with Cons.prems show ?thesis by simp
  qed
qed

lemma write_archive_no_SourceError:
  "write_archive T es hist s = (None, s') \<Longrightarrow> \<forall>err. SourceError err \<notin> set es"
proof (induction es arbitrary: hist s)
  case Nil
  then show ?case by simp
next
  case (Cons e es)
  show ?case
  proof (cases e)
    case (TarWrite p)
    with Cons.prems obtain s1 where
      "write_archive T es (hist @ p) s1 = (None, s')"
      by (auto split: option.splits prod.splits)
    from Cons.IH[OF this] TarWrite show ?thesis by simp
  next
    case (SourceError err)
    with Cons.prems show ?thesis by simp
  qed
qed

lemma buildBinary_builds:
  "buildBinary_outPath P output plat \<notin> statable s \<Longrightarrow>
   \<exists>cmd. commands (snd (buildBinary P pluginDir output plat s)) = commands s @ [cmd] \<and>
         cmd_Name cmd = ''go'' \<and> cmd_Args cmd = [''build'', ''-o'', buildBinary_outPath P output plat, ''./pkg'']"
  by (auto simp: buildBinary_def Let_def split: prod.splits option.splits)

lemma TarGz_archive_Inr:
  assumes "TarGz_archive T sourceDir outPath fs = (Inr sidecar, fs1)"
  shows "sidecar = outPath @ ''.sha256''"
    and "fs1 = fs(outPath \<mapsto> gzip_bytes T (tar_events T sourceDir (fs(outPath \<mapsto> []))) [],
                  outPath @ ''.sha256'' \<mapsto>
                    hex_EncodeToString (hasher_Sum T
                      (gzip_bytes T (tar_events T sourceDir (fs(outPath \<mapsto> []))) [])))"
    and "\<forall>err. SourceError err \<notin> set (tar_events T sourceDir (fs(outPath \<mapsto> [])))"
proof -
  let ?fs0 = "fs(outPath \<mapsto> [])"
  let ?es = "tar_events T sourceDir ?fs0"
  from assms obtain fbytes hashed where
    w: "write_archive T ?es [] ([], []) = (None, (fbytes, hashed))"
    by (auto simp: TarGz_archive_def Let_def split: option.splits prod.splits)
  from write_archive_None[OF w] have eq: "fbytes = gzip_bytes T ?es []" "hashed = gzip_bytes T ?es []"
    by simp_all
  from assms w eq show "sidecar = outPath @ ''.sha256''"
    by (auto simp: TarGz_archive_def Let_def split: option.splits prod.splits)
  from assms w eq show "fs1 = fs(outPath \<mapsto> gzip_bytes T ?es [],
                  outPath @ ''.sha256'' \<mapsto> hex_EncodeToString (hasher_Sum T (gzip_bytes T ?es [])))"
    by (auto simp: TarGz_archive_def Let_def split: option.splits prod.splits)
  from write_archive_no_SourceError[OF w] show "\<forall>err. SourceError err \<notin> set ?es" .
qed

lemma hex_EncodeToString_length: "length (hex_EncodeToString src) = 2 * length src"
  by (induction src) (simp_all add: hex_EncodeToString_def hex_Encode_def)

lemma ex_ToReleases: "ToReleases ex_opts = [ex_release]"
  by (simp add: ToReleases_def append_release_def ex_opts_def ex_release_def)

lemma ex_hex: "hex_EncodeToString [CHR 0xBA, CHR 0x78] = ''ba78''"
  by (simp add: hex_EncodeToString_def hex_Encode_def hextable_def)

lemma ex_architectureInfo: "architectureInfo ex_env ex_release = ex_info"
  by (simp add: architectureInfo_def ex_env_def ex_release_def ex_info_def BucketPath_def ex_hex)

lemma ex_architectureInfo_no_stat:
  "architectureInfo ex_env_no_stat ex_release = ex_info\<lparr>Size := 0\<rparr>"
  by (simp add: architectureInfo_def ex_env_no_stat_def ex_env_def ex_release_def ex_info_def
      BucketPath_def ex_hex)

lemma ex_OSArch: "OSArch ex_release = ''linux_amd64''"
  by (simp add: OSArch_def ex_release_def)

lemma ex_republish:
  "updateIndex ex_env ex_catalog [ex_release] ex_meta =
     Returned (ex_catalog\<lparr>LatestVersion := ex_new_record, Versions := [ex_old_record, ex_new_record]\<rparr>)"
proof -
  have open_ok: "os_Open ex_env (Path ex_release) = None" "io_Copy_err ex_env (Path ex_release) = None"
    "time_Now ex_env 0 = 100" "time_Now ex_env (Suc 0) = 100"
    by (simp_all add: ex_env_def)
  have same: "Plugin ex_release = ID ex_catalog" "release_Version ex_release = ''1.2.0''"
    by (simp_all add: ex_release_def ex_catalog_def)
  have meta: "meta_Description ex_meta = Description ex_catalog" "meta_Icon ex_meta = Icon ex_catalog"
    "meta_Name ex_meta = Name ex_catalog" "Versions ex_catalog = [ex_old_record]"
    by (simp_all add: ex_meta_def ex_catalog_def)
  show ?thesis
    by (simp add: updateIndex_def open_ok same meta ex_architectureInfo ex_OSArch ex_new_record_def)
qed

lemma ex_getPluginIndex_fresh: "getPluginIndex E Map.empty ''p'' = (case s3_GetObject_err E ''p/index.json'' of None \<Rightarrow> Inr ex_fresh | Some err \<Rightarrow> (if \<not> errors_As_NoSuchKey err
           then Inl (errorString (''couldn't get plugin index: '' @ Error err)) else Inr ex_fresh))"
  by (simp add: getPluginIndex_def s3_GetObject_def ex_fresh_def split: option.splits)

section \<open>The claims\<close>

subsection \<open>C1: publishing a version again\<close>

text \<open>
  C1, as amended. Whenever \<open>updateIndex\<close> returns, the catalog's version list is the old list
  with one record appended: every record the catalog already had stays as it was, its
  \<open>Created\<close> and its \<open>Updated\<close> included, and the appended record, which is also the latest
  version, carries the published version and the two clock readings of this publish. So
  the number of records for the published version grows by one on every publish of it.
\<close>

theorem republish_appends:
  "updateIndex E index releases metadata = Returned index' \<Longrightarrow>
   Versions index' = Versions index @ [LatestVersion index'] \<and>
   Version (LatestVersion index') = release_Version (hd releases) \<and>
   Created (LatestVersion index') = time_Now E 0 \<and>
   Updated (LatestVersion index') = time_Now E 1 \<and>
   length (filter (\<lambda>v. Version v = release_Version (hd releases)) (Versions index')) =
     Suc (length (filter (\<lambda>v. Version v = release_Version (hd releases)) (Versions index)))"
proof -
  assume h: "updateIndex E index releases metadata = Returned index'"
  note f = updateIndex_Returned[OF h]
  from f(1) f(6) have "filter (\<lambda>v. Version v = release_Version (hd releases)) (Versions index') =
     filter (\<lambda>v. Version v = release_Version (hd releases)) (Versions index) @ [LatestVersion index']"
    by simp
  then have "length (filter (\<lambda>v. Version v = release_Version (hd releases)) (Versions index')) =
     Suc (length (filter (\<lambda>v. Version v = release_Version (hd releases)) (Versions index)))"
    by simp
  with f show ?thesis by simp
qed

lemma ex_first_publish:
  "updateIndex ex_env ex_fresh [ex_release] ex_meta =
     Returned \<lparr>ID = ''p'', Name = ''Plugin P'', Icon = ''p.svg'', Description = ''An example plugin'',
               Official = False, LatestVersion = ex_new_record, Versions = [ex_new_record]\<rparr>"
proof -
  have open_ok: "os_Open ex_env (Path ex_release) = None" "io_Copy_err ex_env (Path ex_release) = None"
    "time_Now ex_env 0 = 100" "time_Now ex_env (Suc 0) = 100"
    by (simp_all add: ex_env_def)
  have same: "Plugin ex_release = ID ex_fresh" "release_Version ex_release = ''1.2.0''"
    by (simp_all add: ex_release_def ex_fresh_def)
  have meta: "meta_Description ex_meta = ''An example plugin''" "meta_Icon ex_meta = ''p.svg''"
    "meta_Name ex_meta = ''Plugin P''"
    by (simp_all add: ex_meta_def)
  show ?thesis
    by (simp add: updateIndex_def open_ok same meta ex_architectureInfo ex_OSArch ex_new_record_def)
      (simp add: ex_fresh_def)
qed

text \<open>
  Publishing \<open>1.2.0\<close> at time \<open>100\<close> into a catalog that holds a record of \<open>1.2.0\<close> made at
  time \<open>1\<close>.
\<close>

theorem republish_appends_witness:
  "updateIndex ex_env ex_catalog [ex_release] ex_meta =
     Returned (ex_catalog\<lparr>LatestVersion := ex_new_record, Versions := [ex_old_record, ex_new_record]\<rparr>) \<and>
   [ex_old_record, ex_new_record] = Versions ex_catalog @ [ex_new_record] \<and>
   Version ex_new_record = release_Version ex_release \<and>
   Created ex_new_record = time_Now ex_env 0 \<and>
   Updated ex_new_record = time_Now ex_env 1 \<and>
   length (filter (\<lambda>v. Version v = release_Version ex_release) [ex_old_record, ex_new_record]) =
     Suc (length (filter (\<lambda>v. Version v = release_Version ex_release) (Versions ex_catalog)))"
  using republish_appends[OF ex_republish] ex_republish
  by simp

text \<open>
  C1 as stated fails there: the catalog ends with two records for \<open>1.2.0\<close>, and the
  \<open>Updated\<close> of the record it had is still \<open>1\<close>.
\<close>

theorem republish_duplicates_counterexample:
  "updateIndex ex_env ex_catalog [ex_release] ex_meta =
     Returned (ex_catalog\<lparr>LatestVersion := ex_new_record, Versions := [ex_old_record, ex_new_record]\<rparr>) \<and>
   Versions ex_catalog = [ex_old_record] \<and>
   map Version [ex_old_record, ex_new_record] = [release_Version ex_release, release_Version ex_release] \<and>
   map Updated [ex_old_record, ex_new_record] = [1, 100]"
  using ex_republish
  by (simp add: ex_catalog_def ex_old_record_def ex_new_record_def ex_release_def)

subsection \<open>C2: a failed UI build\<close>

text \<open>
  C2, as amended. When the shared UI build fails, \<open>BuildAll\<close> returns one result per
  platform and the error of every result is non-nil; the result of a platform whose binary
  build succeeded carries the UI failure (\<open>UI build failed: \<close> followed by the UI error's
  message); the result of a platform whose binary build failed keeps that build's own
  error.
\<close>

theorem ui_failure_marks_successes:
  "length (BuildAll P (Some err) binErr pluginDir version outdir platforms) = length platforms \<and>
   (\<forall>r\<in>set (BuildAll P (Some err) binErr pluginDir version outdir platforms). Err r \<noteq> None) \<and>
   (\<forall>i<length platforms.
      (binErr i = None \<longrightarrow>
         Err (BuildAll P (Some err) binErr pluginDir version outdir platforms ! i) =
           Some (errorString (''UI build failed: '' @ Error err)) \<and>
         carries (errorString (''UI build failed: '' @ Error err)) err) \<and>
      (\<forall>e. binErr i = Some e \<longrightarrow>
         Err (BuildAll P (Some err) binErr pluginDir version outdir platforms ! i) = Some e))"
proof -
  let ?R = "BuildAll P (Some err) binErr pluginDir version outdir platforms"
  have len: "length ?R = length platforms" by (rule BuildAll_length)
  have nth: "\<And>i. i < length platforms \<Longrightarrow>
      Err (?R ! i) = (case binErr i of None \<Rightarrow> Some (errorString (''UI build failed: '' @ Error err))
                      | Some e \<Rightarrow> Some e)"
    by (rule BuildAll_nth_Err)
  have all: "\<forall>r\<in>set ?R. Err r \<noteq> None"
  proof
    fix r assume "r \<in> set ?R"
    then obtain i where i: "i < length ?R" "r = ?R ! i" by (auto simp: in_set_conv_nth)
    with len nth[of i] show "Err r \<noteq> None" by (simp split: option.splits)
  qed
  have "sublist (Error err) (''UI build failed: '' @ Error err)"
    by (rule sublist_append_leftI)
  then have c: "carries (errorString (''UI build failed: '' @ Error err)) err"
    by (simp only: carries_def Error.simps)
  from len all nth c show ?thesis by (simp split: option.splits)
qed

lemma ex_BuildAll_outputDirs:
  "BuildAll_outputDirs ex_penv ''plugin'' ''out'' [ex_linux] Map.empty =
     [''linux_amd64'' \<mapsto> ''plugin/out/linux_amd64'']"
  by (simp add: ex_penv_def ex_linux_def Key_def Let_def)

lemma ex_BuildAll_all_fail:
  "BuildAll ex_penv (Some ex_uiErr) ex_all_fail ''plugin'' ''1.2.0'' ''out'' [ex_linux] =
     [\<lparr>Platform = ex_linux, OutputDir = ''plugin/out/linux_amd64'', Err = Some ex_binErr\<rparr>]"
  by (simp add: BuildAll_def binResults_def map_index_def markUIFailed_def ex_all_fail_def
      ex_penv_def ex_linux_def Key_def Let_def)

text \<open>
  C2 as stated fails when the platform's own build failed too: the returned error is the
  binary build's, and the UI failure's message is no part of it.
\<close>

theorem ui_failure_keeps_binary_error_counterexample:
  "BuildAll ex_penv (Some ex_uiErr) ex_all_fail ''plugin'' ''1.2.0'' ''out'' [ex_linux] =
     [\<lparr>Platform = ex_linux, OutputDir = ''plugin/out/linux_amd64'', Err = Some ex_binErr\<rparr>] \<and>
   ex_all_fail 0 = Some ex_binErr \<and>
   \<not> carries ex_binErr ex_uiErr"
  using ex_BuildAll_all_fail
  by (simp add: ex_all_fail_def carries_def ex_binErr_def ex_uiErr_def sublist_Cons_right)

lemma ex_BuildAll_outputDirs2:
  "BuildAll_outputDirs ex_penv ''plugin'' ''out'' [ex_linux, ex_windows] Map.empty =
     [''linux_amd64'' \<mapsto> ''plugin/out/linux_amd64'', ''windows_amd64'' \<mapsto> ''plugin/out/windows_amd64'']"
  by (simp add: ex_penv_def ex_linux_def ex_windows_def Key_def Let_def)

text \<open>Two platforms, the first of which fails to build, under a failed UI build.\<close>

theorem ui_failure_marks_successes_witness:
  "map Err (BuildAll ex_penv (Some ex_uiErr) ex_first_fails ''plugin'' ''1.2.0'' ''out'' [ex_linux, ex_windows]) =
     [Some ex_binErr, Some (errorString ''UI build failed: UI build error: exit status 1'')] \<and>
   ex_first_fails 0 = Some ex_binErr \<and> ex_first_fails 1 = None \<and>
   carries (errorString ''UI build failed: UI build error: exit status 1'') ex_uiErr"
proof -
  let ?R = "BuildAll ex_penv (Some ex_uiErr) ex_first_fails ''plugin'' ''1.2.0'' ''out'' [ex_linux, ex_windows]"
  note t = ui_failure_marks_successes[of ex_penv ex_uiErr ex_first_fails "''plugin''" "''1.2.0''" "''out''"
      "[ex_linux, ex_windows]"]
  have f: "ex_first_fails 0 = Some ex_binErr" "ex_first_fails 1 = None"
    by (simp_all add: ex_first_fails_def)
  from t have len: "length ?R = 2" by simp
  from t have t3: "\<And>i. i < length [ex_linux, ex_windows] \<Longrightarrow>
      (ex_first_fails i = None \<longrightarrow>
         Err (?R ! i) = Some (errorString (''UI build failed: '' @ Error ex_uiErr)) \<and>
         carries (errorString (''UI build failed: '' @ Error ex_uiErr)) ex_uiErr) \<and>
      (\<forall>e. ex_first_fails i = Some e \<longrightarrow> Err (?R ! i) = Some e)"
    by blast
  from t3[of 0] f have e0: "Err (?R ! 0) = Some ex_binErr" by simp
  from t3[of 1] f have e1: "Err (?R ! 1) = Some (errorString (''UI build failed: '' @ Error ex_uiErr))"
    and c: "carries (errorString (''UI build failed: '' @ Error ex_uiErr)) ex_uiErr"
    by simp_all
  from len obtain a b where ab: "?R = [a, b]"
    by (cases ?R; cases "tl ?R") auto
  from ab e0 e1 c f show ?thesis by (simp add: ex_uiErr_def)
qed

subsection \<open>C3: the remote key of a release\<close>

text \<open>
  C3, as amended. The bucket path of a release is
  \<open><plugin-id>/<version>/<os>-<arch>.tar.gz\<close>, the os and the arch joined by a hyphen. It is
  the key \<open>Upload\<close> stores the artifact under and returns, and the download URL that
  \<open>updateIndex\<close> records for the release, under the architecture key \<open><os>_<arch>\<close>.
\<close>

theorem release_key_hyphen:
  "BucketPath r = Plugin r @ ''/'' @ release_Version r @ ''/'' @ OS r @ ''-'' @ Arch r @ ''.tar.gz'' \<and>
   (\<forall>key b'. Upload E p b r = (Inr key, b') \<longrightarrow>
      key = BucketPath r \<and> b' = b(BucketPath r \<mapsto> file_bytes E (Path r))) \<and>
   DownloadURL (architectureInfo E r) = BucketPath r \<and>
   (\<forall>index releases metadata index' k info.
      updateIndex E index releases metadata = Returned index' \<longrightarrow>
      Architectures (LatestVersion index') k = Some info \<longrightarrow>
      (\<exists>r'\<in>set releases. k = OSArch r' \<and> DownloadURL info = BucketPath r'))"
proof -
  have a: "BucketPath r = Plugin r @ ''/'' @ release_Version r @ ''/'' @ OS r @ ''-'' @ Arch r @ ''.tar.gz''"
    by (simp add: BucketPath_def)
  have b: "\<forall>key b'. Upload E p b r = (Inr key, b') \<longrightarrow>
      key = BucketPath r \<and> b' = b(BucketPath r \<mapsto> file_bytes E (Path r))"
    using Upload_Inr by blast
  have c: "DownloadURL (architectureInfo E r) = BucketPath r"
    by (rule architectureInfo_fields)
  have d: "\<forall>index releases metadata index' k info.
      updateIndex E index releases metadata = Returned index' \<longrightarrow>
      Architectures (LatestVersion index') k = Some info \<longrightarrow>
      (\<exists>r'\<in>set releases. k = OSArch r' \<and> DownloadURL info = BucketPath r')"
  proof (intro allI impI)
    fix index releases metadata index' k info
    assume h: "updateIndex E index releases metadata = Returned index'"
      "Architectures (LatestVersion index') k = Some info"
    from updateIndex_recorded[OF h] obtain r' where
      "r' \<in> set releases" "k = OSArch r'" "info = architectureInfo E r'" by blast
    then show "\<exists>r'\<in>set releases. k = OSArch r' \<and> DownloadURL info = BucketPath r'"
      using architectureInfo_fields(1) by blast
  qed
  from a b c d show ?thesis by blast
qed

lemma ex_Upload:
  "Upload ex_env ex_publisher Map.empty ex_release =
     (Inr ''p/1.2.0/linux-amd64.tar.gz'', [''p/1.2.0/linux-amd64.tar.gz'' \<mapsto> ''abc''])"
  by (simp add: Upload_def s3_PutObject_def BucketPath_def ex_env_def ex_release_def)

text \<open>The release of \<open>p\<close> \<open>1.2.0\<close> for \<open>linux/amd64\<close>, uploaded and indexed.\<close>

theorem release_key_hyphen_witness:
  "Upload ex_env ex_publisher Map.empty ex_release =
     (Inr (BucketPath ex_release), [BucketPath ex_release \<mapsto> file_bytes ex_env (Path ex_release)]) \<and>
   BucketPath ex_release = ''p/1.2.0/linux-amd64.tar.gz'' \<and>
   updateIndex ex_env ex_fresh [ex_release] ex_meta =
     Returned \<lparr>ID = ''p'', Name = ''Plugin P'', Icon = ''p.svg'', Description = ''An example plugin'',
               Official = False, LatestVersion = ex_new_record, Versions = [ex_new_record]\<rparr> \<and>
   Architectures ex_new_record ''linux_amd64'' = Some ex_info \<and>
   (\<exists>r'\<in>set [ex_release]. ''linux_amd64'' = OSArch r' \<and> DownloadURL ex_info = BucketPath r')"
proof -
  note t = release_key_hyphen[of ex_release ex_env ex_publisher Map.empty]
  have arch: "Architectures ex_new_record ''linux_amd64'' = Some ex_info"
    by (simp add: ex_new_record_def)
  from t have key: "BucketPath ex_release = ''p/1.2.0/linux-amd64.tar.gz''"
    by (simp add: ex_release_def)
  from t ex_Upload have up: "Upload ex_env ex_publisher Map.empty ex_release =
     (Inr (BucketPath ex_release), [BucketPath ex_release \<mapsto> file_bytes ex_env (Path ex_release)])"
    by (simp add: ex_env_def)
  from t have "\<forall>index releases metadata index' k info.
      updateIndex ex_env index releases metadata = Returned index' \<longrightarrow>
      Architectures (LatestVersion index') k = Some info \<longrightarrow>
      (\<exists>r'\<in>set releases. k = OSArch r' \<and> DownloadURL info = BucketPath r')"
    by blast
  from this[rule_format, OF ex_first_publish, of "''linux_amd64''" ex_info] arch
  have rec: "\<exists>r'\<in>set [ex_release]. ''linux_amd64'' = OSArch r' \<and> DownloadURL ex_info = BucketPath r'"
    by simp
  from up key ex_first_publish arch rec show ?thesis by blast
qed

text \<open>
  C3 as stated fails for that release: its key has a hyphen between \<open>linux\<close> and \<open>amd64\<close>,
  not an underscore.
\<close>

theorem release_key_underscore_counterexample:
  "BucketPath ex_release = ''p/1.2.0/linux-amd64.tar.gz'' \<and>
   BucketPath ex_release \<noteq>
     Plugin ex_release @ ''/'' @ release_Version ex_release @ ''/'' @ OS ex_release @ ''_'' @ Arch ex_release @ ''.tar.gz'' \<and>
   Upload ex_env ex_publisher Map.empty ex_release =
     (Inr ''p/1.2.0/linux-amd64.tar.gz'', [''p/1.2.0/linux-amd64.tar.gz'' \<mapsto> ''abc'']) \<and>
   DownloadURL (architectureInfo ex_env ex_release) = ''p/1.2.0/linux-amd64.tar.gz''"
  using ex_Upload ex_architectureInfo
  by (simp add: BucketPath_def ex_release_def ex_info_def)

subsection \<open>C4: errors on a release's file\<close>

text \<open>
  C4, as amended. For a release that the loop processes (its plugin id is the catalog's),
  an error from opening the file or from reading it for the hash is fatal: \<open>updateIndex\<close>
  ends the process, and \<open>UpdateIndex\<close> ends with the bucket as it was, so no catalog is
  written. An error from \<open>os.Stat\<close> is not fatal: when every processed release opens and
  reads, \<open>updateIndex\<close> returns whatever \<open>os.Stat\<close> answers, and the release is recorded
  with size \<open>0\<close>.
\<close>

theorem open_and_hash_errors_fatal:
  "((\<exists>r\<in>set releases. Plugin r = ID index \<and>
        (os_Open E (Path r) \<noteq> None \<or> io_Copy_err E (Path r) \<noteq> None)) \<longrightarrow>
      (\<exists>err. updateIndex E index releases metadata = Fatal err)) \<and>
   (getPluginIndex E b (opts_Plugin opts) = Inr index \<and>
    (\<exists>r\<in>set (ToReleases opts). Plugin r = ID index \<and>
        (os_Open E (Path r) \<noteq> None \<or> io_Copy_err E (Path r) \<noteq> None)) \<longrightarrow>
      (\<exists>err. UpdateIndex E i b opts = (Fatal err, b))) \<and>
   (releases \<noteq> [] \<and>
    (\<forall>r\<in>set releases. Plugin r = ID index \<longrightarrow>
        os_Open E (Path r) = None \<and> io_Copy_err E (Path r) = None) \<longrightarrow>
      (\<exists>index'. updateIndex E index releases metadata = Returned index')) \<and>
   (\<forall>r err. os_Stat E (Path r) = Inl err \<longrightarrow> Size (architectureInfo E r) = 0)"
proof -
  have a: "(\<exists>r\<in>set releases. Plugin r = ID index \<and>
        (os_Open E (Path r) \<noteq> None \<or> io_Copy_err E (Path r) \<noteq> None)) \<longrightarrow>
      (\<exists>err. updateIndex E index releases metadata = Fatal err)"
    using updateIndex_Fatal by blast
  have b: "getPluginIndex E b (opts_Plugin opts) = Inr index \<and>
    (\<exists>r\<in>set (ToReleases opts). Plugin r = ID index \<and>
        (os_Open E (Path r) \<noteq> None \<or> io_Copy_err E (Path r) \<noteq> None)) \<longrightarrow>
      (\<exists>err. UpdateIndex E i b opts = (Fatal err, b))"
  proof
    assume h: "getPluginIndex E b (opts_Plugin opts) = Inr index \<and>
      (\<exists>r\<in>set (ToReleases opts). Plugin r = ID index \<and>
        (os_Open E (Path r) \<noteq> None \<or> io_Copy_err E (Path r) \<noteq> None))"
    then obtain r where r: "r \<in> set (ToReleases opts)" "Plugin r = ID index"
      "os_Open E (Path r) \<noteq> None \<or> io_Copy_err E (Path r) \<noteq> None" by blast
    from updateIndex_Fatal[OF r] obtain err where
      "updateIndex E index (ToReleases opts) (LoadMetadata E (MetadataPath opts)) = Fatal err"
      by blast
    with h have "UpdateIndex E i b opts = (Fatal err, b)"
      by (simp add: UpdateIndex_def Let_def)
    then show "\<exists>err. UpdateIndex E i b opts = (Fatal err, b)" by blast
  qed
  have c: "releases \<noteq> [] \<and>
    (\<forall>r\<in>set releases. Plugin r = ID index \<longrightarrow>
        os_Open E (Path r) = None \<and> io_Copy_err E (Path r) = None) \<longrightarrow>
      (\<exists>index'. updateIndex E index releases metadata = Returned index')"
    using updateIndex_Returned_ex by blast
  have d: "\<forall>r err. os_Stat E (Path r) = Inl err \<longrightarrow> Size (architectureInfo E r) = 0"
    by (simp add: architectureInfo_fields)
  from a b c d show ?thesis by blast
qed

lemma ex_getPluginIndex: "getPluginIndex ex_env Map.empty ''p'' = Inr ex_fresh"
  by (simp add: ex_getPluginIndex_fresh ex_env_def)

lemma ex_getPluginIndex_no_open: "getPluginIndex ex_env_no_open Map.empty ''p'' = Inr ex_fresh"
  by (simp add: ex_getPluginIndex_fresh ex_env_no_open_def ex_env_def)

text \<open>
  A release whose file cannot be opened, and the same release when only \<open>os.Stat\<close> fails.
\<close>

theorem open_and_hash_errors_fatal_witness:
  "(\<exists>err. UpdateIndex ex_env_no_open ex_indexer Map.empty ex_opts = (Fatal err, Map.empty)) \<and>
   (\<exists>err. updateIndex ex_env_no_open ex_fresh [ex_release] ex_meta = Fatal err) \<and>
   os_Open ex_env_no_open (Path ex_release) \<noteq> None \<and>
   (\<exists>index'. updateIndex ex_env_no_stat ex_fresh [ex_release] ex_meta = Returned index') \<and>
   os_Stat ex_env_no_stat (Path ex_release) =
     Inl (errorString ''stat dist/linux_amd64.tar.gz: no such file or directory'') \<and>
   Size (architectureInfo ex_env_no_stat ex_release) = 0"
proof -
  have o: "os_Open ex_env_no_open (Path ex_release) \<noteq> None"
    by (simp add: ex_env_no_open_def ex_release_def)
  have same: "Plugin ex_release = ID ex_fresh" by (simp add: ex_release_def ex_fresh_def)
  have plug: "opts_Plugin ex_opts = ''p''" by (simp add: ex_opts_def)
  note t1 = open_and_hash_errors_fatal[where releases = "[ex_release]" and index = ex_fresh
      and E = ex_env_no_open and b = Map.empty and opts = ex_opts and metadata = ex_meta
      and i = ex_indexer]
  from t1 o same have f1: "\<exists>err. updateIndex ex_env_no_open ex_fresh [ex_release] ex_meta = Fatal err"
    by simp
  from t1 o same plug ex_getPluginIndex_no_open ex_ToReleases
  have f2: "\<exists>err. UpdateIndex ex_env_no_open ex_indexer Map.empty ex_opts = (Fatal err, Map.empty)"
    by simp
  have s: "os_Stat ex_env_no_stat (Path ex_release) =
     Inl (errorString ''stat dist/linux_amd64.tar.gz: no such file or directory'')"
    "os_Open ex_env_no_stat (Path ex_release) = None" "io_Copy_err ex_env_no_stat (Path ex_release) = None"
    by (simp_all add: ex_env_no_stat_def ex_env_def)
  note t2 = open_and_hash_errors_fatal[where releases = "[ex_release]" and index = ex_fresh
      and E = ex_env_no_stat and b = Map.empty and opts = ex_opts and metadata = ex_meta
      and i = ex_indexer]
  from t2 s have f3: "\<exists>index'. updateIndex ex_env_no_stat ex_fresh [ex_release] ex_meta = Returned index'"
    by simp
  from t2 s have f4: "Size (architectureInfo ex_env_no_stat ex_release) = 0" by blast
  from f1 f2 o f3 s(1) f4 show ?thesis by blast
qed

lemma ex_update_no_stat:
  "updateIndex ex_env_no_stat ex_fresh [ex_release] ex_meta =
     Returned \<lparr>ID = ''p'', Name = ''Plugin P'', Icon = ''p.svg'', Description = ''An example plugin'',
               Official = False,
               LatestVersion = ex_new_record\<lparr>Architectures := [''linux_amd64'' \<mapsto> ex_info\<lparr>Size := 0\<rparr>]\<rparr>,
               Versions = [ex_new_record\<lparr>Architectures := [''linux_amd64'' \<mapsto> ex_info\<lparr>Size := 0\<rparr>]\<rparr>]\<rparr>"
proof -
  have open_ok: "os_Open ex_env_no_stat (Path ex_release) = None"
    "io_Copy_err ex_env_no_stat (Path ex_release) = None"
    "time_Now ex_env_no_stat 0 = 100" "time_Now ex_env_no_stat (Suc 0) = 100"
    by (simp_all add: ex_env_no_stat_def ex_env_def)
  have same: "Plugin ex_release = ID ex_fresh" "release_Version ex_release = ''1.2.0''"
    by (simp_all add: ex_release_def ex_fresh_def)
  have meta: "meta_Description ex_meta = ''An example plugin''" "meta_Icon ex_meta = ''p.svg''"
    "meta_Name ex_meta = ''Plugin P''"
    by (simp_all add: ex_meta_def)
  show ?thesis
    by (simp add: updateIndex_def open_ok same meta ex_architectureInfo_no_stat ex_OSArch ex_new_record_def)
      (simp add: ex_fresh_def)
qed

lemma ex_UpdateIndex_no_stat:
  "UpdateIndex ex_env_no_stat ex_indexer Map.empty ex_opts =
     (Returned None, [''p/index.json'' \<mapsto> ''{plugin catalog of p}'', ''index.json'' \<mapsto> ''{registry catalog}''])"
proof -
  have g: "getPluginIndex ex_env_no_stat Map.empty (opts_Plugin ex_opts) = Inr ex_fresh"
    by (simp add: ex_getPluginIndex_fresh ex_opts_def ex_env_no_stat_def ex_env_def)
  have m: "LoadMetadata ex_env_no_stat (MetadataPath ex_opts) = ex_meta"
    by (simp add: LoadMetadata_def ex_env_no_stat_def ex_env_def)
  show ?thesis
    by (simp add: UpdateIndex_def g m ex_ToReleases ex_update_no_stat)
      (simp add: setPluginIndex_def store_def s3_PutObject_def getRegistryIndex_def s3_GetObject_def
        setRegistryIndex_def PluginIndex_BucketPath_def ex_env_no_stat_def ex_env_def)
qed

text \<open>
  C4 as stated fails for \<open>os.Stat\<close>: with a failing \<open>os.Stat\<close> the synchronization returns
  \<open>nil\<close>, both catalogs are written, and the version record is there, with size \<open>0\<close>.
\<close>

theorem stat_error_not_fatal_counterexample:
  "os_Stat ex_env_no_stat (Path ex_release) =
     Inl (errorString ''stat dist/linux_amd64.tar.gz: no such file or directory'') \<and>
   ToReleases ex_opts = [ex_release] \<and>
   UpdateIndex ex_env_no_stat ex_indexer Map.empty ex_opts =
     (Returned None, [''p/index.json'' \<mapsto> ''{plugin catalog of p}'', ''index.json'' \<mapsto> ''{registry catalog}'']) \<and>
   updateIndex ex_env_no_stat ex_fresh [ex_release] ex_meta =
     Returned \<lparr>ID = ''p'', Name = ''Plugin P'', Icon = ''p.svg'', Description = ''An example plugin'',
               Official = False,
               LatestVersion = ex_new_record\<lparr>Architectures := [''linux_amd64'' \<mapsto> ex_info\<lparr>Size := 0\<rparr>]\<rparr>,
               Versions = [ex_new_record\<lparr>Architectures := [''linux_amd64'' \<mapsto> ex_info\<lparr>Size := 0\<rparr>]\<rparr>]\<rparr>"
  using ex_UpdateIndex_no_stat ex_update_no_stat ex_ToReleases
  by (simp add: ex_env_no_stat_def ex_env_def)

lemma upsertRegistry_absent:
  "ID pluginIndex \<notin> ID ` set (Plugins registryIndex) \<Longrightarrow>
   Plugins (upsertRegistry registryIndex pluginIndex) = Plugins registryIndex @ [registryEntry pluginIndex]"
  by (simp add: upsertRegistry_def UpdateIndex_loop_not_found)

lemma upsertRegistry_present:
  assumes "ID pluginIndex \<in> ID ` set (Plugins registryIndex)"
  shows "\<exists>n<length (Plugins registryIndex).
           ID (Plugins registryIndex ! n) = ID pluginIndex \<and>
           (\<forall>m<n. ID (Plugins registryIndex ! m) \<noteq> ID pluginIndex) \<and>
           Plugins (upsertRegistry registryIndex pluginIndex) =
             (Plugins registryIndex)[n := registryEntry pluginIndex]"
proof -
  from UpdateIndex_loop_found[OF assms] obtain pre old post where
    h: "Plugins registryIndex = pre @ old # post" "ID old = ID pluginIndex"
       "ID pluginIndex \<notin> ID ` set pre"
       "UpdateIndex_loop (Plugins registryIndex) pluginIndex = (True, pre @ registryEntry pluginIndex # post)"
    by blast
  have u: "Plugins (upsertRegistry registryIndex pluginIndex) = pre @ registryEntry pluginIndex # post"
    using h(4) by (simp add: upsertRegistry_def)
  have 1: "length pre < length (Plugins registryIndex)" using h(1) by simp
  have 2: "ID (Plugins registryIndex ! length pre) = ID pluginIndex" using h(1,2) by simp
  have 3: "\<forall>m<length pre. ID (Plugins registryIndex ! m) \<noteq> ID pluginIndex"
  proof (intro allI impI)
    fix m assume m: "m < length pre"
    then have "pre ! m \<in> set pre" by simp
    then have "ID (pre ! m) \<in> ID ` set pre" by (rule imageI)
    with h(3) have "ID (pre ! m) \<noteq> ID pluginIndex" by auto
    with m h(1) show "ID (Plugins registryIndex ! m) \<noteq> ID pluginIndex"
      by (simp add: nth_append)
  qed
  have 4: "Plugins (upsertRegistry registryIndex pluginIndex) =
             (Plugins registryIndex)[length pre := registryEntry pluginIndex]"
    using u h(1) by simp
  from 1 2 3 4 show ?thesis by blast
qed

lemma registryEntry_fields:
  "ID (registryEntry pluginIndex) = ID pluginIndex"
  "Name (registryEntry pluginIndex) = Name pluginIndex"
  "Icon (registryEntry pluginIndex) = Icon pluginIndex"
  "Description (registryEntry pluginIndex) = Description pluginIndex"
  "Official (registryEntry pluginIndex) = True"
  "LatestVersion (registryEntry pluginIndex) = LatestVersion pluginIndex"
  by (simp_all add: registryEntry_def)

lemma upsertRegistry_distinct:
  assumes "distinct (map ID (Plugins registryIndex))"
  shows "distinct (map ID (Plugins (upsertRegistry registryIndex pluginIndex)))"
proof (cases "ID pluginIndex \<in> ID ` set (Plugins registryIndex)")
  case False
  with assms show ?thesis
    by (simp add: upsertRegistry_absent registryEntry_fields)
next
  case True
  from upsertRegistry_present[OF True] obtain n where
    n: "n < length (Plugins registryIndex)" "ID (Plugins registryIndex ! n) = ID pluginIndex"
       "Plugins (upsertRegistry registryIndex pluginIndex) = (Plugins registryIndex)[n := registryEntry pluginIndex]"
    by blast
  have "map ID ((Plugins registryIndex)[n := registryEntry pluginIndex]) = map ID (Plugins registryIndex)"
    using n(1,2) by (simp add: map_update registryEntry_fields list_update_same_conv)
  with n(3) assms show ?thesis by simp
qed

lemma upsertRegistry_cases:
  "distinct (map ID (Plugins registryIndex)) \<Longrightarrow>
   (ID pluginIndex \<notin> ID ` set (Plugins registryIndex) \<longrightarrow>
      Plugins (upsertRegistry registryIndex pluginIndex) =
        Plugins registryIndex @ [registryEntry pluginIndex]) \<and>
   (ID pluginIndex \<in> ID ` set (Plugins registryIndex) \<longrightarrow>
      length (Plugins (upsertRegistry registryIndex pluginIndex)) = length (Plugins registryIndex) \<and>
      (\<exists>n<length (Plugins registryIndex).
         ID (Plugins registryIndex ! n) = ID pluginIndex \<and>
         Plugins (upsertRegistry registryIndex pluginIndex) =
           (Plugins registryIndex)[n := registryEntry pluginIndex])) \<and>
   distinct (map ID (Plugins (upsertRegistry registryIndex pluginIndex))) \<and>
   registryEntry pluginIndex =
     \<lparr>ID = ID pluginIndex, Name = Name pluginIndex, Icon = Icon pluginIndex,
      Description = Description pluginIndex, Official = True,
      LatestVersion = LatestVersion pluginIndex\<rparr>"
proof -
  assume d: "distinct (map ID (Plugins registryIndex))"
  have a: "ID pluginIndex \<notin> ID ` set (Plugins registryIndex) \<longrightarrow>
      Plugins (upsertRegistry registryIndex pluginIndex) =
        Plugins registryIndex @ [registryEntry pluginIndex]"
    using upsertRegistry_absent by blast
  have b: "ID pluginIndex \<in> ID ` set (Plugins registryIndex) \<longrightarrow>
      length (Plugins (upsertRegistry registryIndex pluginIndex)) = length (Plugins registryIndex) \<and>
      (\<exists>n<length (Plugins registryIndex).
         ID (Plugins registryIndex ! n) = ID pluginIndex \<and>
         Plugins (upsertRegistry registryIndex pluginIndex) =
           (Plugins registryIndex)[n := registryEntry pluginIndex])"
  proof
    assume "ID pluginIndex \<in> ID ` set (Plugins registryIndex)"
    from upsertRegistry_present[OF this] obtain n where
      n: "n < length (Plugins registryIndex)" "ID (Plugins registryIndex ! n) = ID pluginIndex"
         "Plugins (upsertRegistry registryIndex pluginIndex) = (Plugins registryIndex)[n := registryEntry pluginIndex]"
      by blast
    from n(3) have "length (Plugins (upsertRegistry registryIndex pluginIndex)) = length (Plugins registryIndex)"
      by simp
    with n show "length (Plugins (upsertRegistry registryIndex pluginIndex)) = length (Plugins registryIndex) \<and>
      (\<exists>n<length (Plugins registryIndex).
         ID (Plugins registryIndex ! n) = ID pluginIndex \<and>
         Plugins (upsertRegistry registryIndex pluginIndex) =
           (Plugins registryIndex)[n := registryEntry pluginIndex])" by blast
  qed
  have c: "distinct (map ID (Plugins (upsertRegistry registryIndex pluginIndex)))"
    using d by (rule upsertRegistry_distinct)
  have e: "registryEntry pluginIndex =
     \<lparr>ID = ID pluginIndex, Name = Name pluginIndex, Icon = Icon pluginIndex,
      Description = Description pluginIndex, Official = True,
      LatestVersion = LatestVersion pluginIndex\<rparr>"
    by (simp add: registryEntry_def)
  from a b c e show ?thesis by blast
qed

subsection \<open>C5: the registry catalog's entry of a plugin\<close>

text \<open>
  C5. Let a publish succeed: \<open>UpdateIndex\<close> returns \<open>nil\<close>. Then it has written the plugin
  catalog under the plugin's key and, under \<open>index.json\<close>, a registry catalog made from the
  one it fetched. When the fetched registry's entries have distinct plugin ids: for a
  plugin with no entry the written registry is the fetched one with exactly one entry
  appended; for a plugin with an entry that entry is replaced where it stands and the list
  keeps its length; in both cases the entry has \<open>Official = True\<close> and the plugin catalog's
  name, icon, description (those of the descriptor) and latest version, and the ids of the
  written registry are distinct.
\<close>

theorem publish_upserts_registry:
  "UpdateIndex E i b opts = (Returned None, b') \<Longrightarrow>
   \<exists>pluginIndex body registryIndex registryIndex' body' entry.
     (\<exists>index. getPluginIndex E b (opts_Plugin opts) = Inr index \<and>
        updateIndex E index (ToReleases opts) (LoadMetadata E (MetadataPath opts)) = Returned pluginIndex) \<and>
     json_Marshal_PluginIndex E pluginIndex = Inr body \<and>
     getRegistryIndex E (b(PluginIndex_BucketPath pluginIndex \<mapsto> body)) = Inr registryIndex \<and>
     json_Marshal_RegistryIndex E registryIndex' = Inr body' \<and>
     b' = b(PluginIndex_BucketPath pluginIndex \<mapsto> body, ''index.json'' \<mapsto> body') \<and>
     entry = \<lparr>ID = ID pluginIndex, Name = Name pluginIndex, Icon = Icon pluginIndex,
              Description = Description pluginIndex, Official = True,
              LatestVersion = LatestVersion pluginIndex\<rparr> \<and>
     Name pluginIndex = meta_Name (LoadMetadata E (MetadataPath opts)) \<and>
     Icon pluginIndex = meta_Icon (LoadMetadata E (MetadataPath opts)) \<and>
     Description pluginIndex = meta_Description (LoadMetadata E (MetadataPath opts)) \<and>
     (distinct (map ID (Plugins registryIndex)) \<longrightarrow>
        (ID pluginIndex \<notin> ID ` set (Plugins registryIndex) \<longrightarrow>
           Plugins registryIndex' = Plugins registryIndex @ [entry]) \<and>
        (ID pluginIndex \<in> ID ` set (Plugins registryIndex) \<longrightarrow>
           length (Plugins registryIndex') = length (Plugins registryIndex) \<and>
           (\<exists>n<length (Plugins registryIndex).
              ID (Plugins registryIndex ! n) = ID pluginIndex \<and>
              Plugins registryIndex' = (Plugins registryIndex)[n := entry])) \<and>
        distinct (map ID (Plugins registryIndex')))"
proof -
  assume run: "UpdateIndex E i b opts = (Returned None, b')"
  from UpdateIndex_success[OF run] obtain index pluginIndex body registryIndex body' where
    h: "getPluginIndex E b (opts_Plugin opts) = Inr index"
       "updateIndex E index (ToReleases opts) (LoadMetadata E (MetadataPath opts)) = Returned pluginIndex"
       "json_Marshal_PluginIndex E pluginIndex = Inr body"
       "getRegistryIndex E (b(PluginIndex_BucketPath pluginIndex \<mapsto> body)) = Inr registryIndex"
       "json_Marshal_RegistryIndex E (upsertRegistry registryIndex pluginIndex) = Inr body'"
       "b' = b(PluginIndex_BucketPath pluginIndex \<mapsto> body, ''index.json'' \<mapsto> body')"
    by blast
  let ?entry = "\<lparr>ID = ID pluginIndex, Name = Name pluginIndex, Icon = Icon pluginIndex,
              Description = Description pluginIndex, Official = True,
              LatestVersion = LatestVersion pluginIndex\<rparr>"
  let ?R = "upsertRegistry registryIndex pluginIndex"
  have e: "registryEntry pluginIndex = ?entry" by (simp add: registryEntry_def)
  note f = updateIndex_Returned[OF h(2)]
  have u: "distinct (map ID (Plugins registryIndex)) \<longrightarrow>
        (ID pluginIndex \<notin> ID ` set (Plugins registryIndex) \<longrightarrow>
           Plugins ?R = Plugins registryIndex @ [?entry]) \<and>
        (ID pluginIndex \<in> ID ` set (Plugins registryIndex) \<longrightarrow>
           length (Plugins ?R) = length (Plugins registryIndex) \<and>
           (\<exists>n<length (Plugins registryIndex).
              ID (Plugins registryIndex ! n) = ID pluginIndex \<and>
              Plugins ?R = (Plugins registryIndex)[n := ?entry])) \<and>
        distinct (map ID (Plugins ?R))"
    using upsertRegistry_cases[of registryIndex pluginIndex] e by simp
  have "(\<exists>index. getPluginIndex E b (opts_Plugin opts) = Inr index \<and>
        updateIndex E index (ToReleases opts) (LoadMetadata E (MetadataPath opts)) = Returned pluginIndex) \<and>
     json_Marshal_PluginIndex E pluginIndex = Inr body \<and>
     getRegistryIndex E (b(PluginIndex_BucketPath pluginIndex \<mapsto> body)) = Inr registryIndex \<and>
     json_Marshal_RegistryIndex E ?R = Inr body' \<and>
     b' = b(PluginIndex_BucketPath pluginIndex \<mapsto> body, ''index.json'' \<mapsto> body') \<and>
     ?entry = ?entry \<and>
     Name pluginIndex = meta_Name (LoadMetadata E (MetadataPath opts)) \<and>
     Icon pluginIndex = meta_Icon (LoadMetadata E (MetadataPath opts)) \<and>
     Description pluginIndex = meta_Description (LoadMetadata E (MetadataPath opts)) \<and>
     (distinct (map ID (Plugins registryIndex)) \<longrightarrow>
        (ID pluginIndex \<notin> ID ` set (Plugins registryIndex) \<longrightarrow>
           Plugins ?R = Plugins registryIndex @ [?entry]) \<and>
        (ID pluginIndex \<in> ID ` set (Plugins registryIndex) \<longrightarrow>
           length (Plugins ?R) = length (Plugins registryIndex) \<and>
           (\<exists>n<length (Plugins registryIndex).
              ID (Plugins registryIndex ! n) = ID pluginIndex \<and>
              Plugins ?R = (Plugins registryIndex)[n := ?entry])) \<and>
        distinct (map ID (Plugins ?R)))"
    using h f(7,8,9) u by blast
  then show ?thesis by blast
qed

lemma ex_json_getPluginIndex:
  "getPluginIndex ex_env_json ex_bucket ''p'' = Inr ex_fresh"
  "getPluginIndex ex_env_json ex_bucket_q ''p'' = Inr ex_fresh"
  by (simp_all add: getPluginIndex_def s3_GetObject_def ex_fresh_def ex_env_json_def ex_env_def
      ex_bucket_def ex_bucket_q_def)

lemma ex_json_architectureInfo: "architectureInfo ex_env_json ex_release = ex_info"
  by (simp add: architectureInfo_def ex_env_json_def ex_env_def ex_release_def ex_info_def
      BucketPath_def ex_hex)

lemma ex_json_first_publish:
  "updateIndex ex_env_json ex_fresh [ex_release] ex_meta = Returned ex_first"
proof -
  have open_ok: "os_Open ex_env_json (Path ex_release) = None"
    "io_Copy_err ex_env_json (Path ex_release) = None"
    "time_Now ex_env_json 0 = 100" "time_Now ex_env_json (Suc 0) = 100"
    by (simp_all add: ex_env_json_def ex_env_def)
  have same: "Plugin ex_release = ID ex_fresh" "release_Version ex_release = ''1.2.0''"
    by (simp_all add: ex_release_def ex_fresh_def)
  have meta: "meta_Description ex_meta = ''An example plugin''" "meta_Icon ex_meta = ''p.svg''"
    "meta_Name ex_meta = ''Plugin P''"
    by (simp_all add: ex_meta_def)
  show ?thesis
    by (simp add: updateIndex_def open_ok same meta ex_json_architectureInfo ex_OSArch
        ex_new_record_def ex_first_def)
      (simp add: ex_fresh_def)
qed

lemma ex_json_LoadMetadata: "LoadMetadata ex_env_json (MetadataPath ex_opts) = ex_meta"
  by (simp add: LoadMetadata_def ex_env_json_def ex_env_def)

lemma ex_json_marshal:
  "json_Marshal_PluginIndex ex_env_json ex_first =
     Inr ''name=Plugin P;icon=p.svg;description=An example plugin''"
  "PluginIndex_BucketPath ex_first = ''p/index.json''"
  by (simp_all add: ex_env_json_def ex_env_def ex_first_def PluginIndex_BucketPath_def)

lemma ex_json_getRegistryIndex:
  "getRegistryIndex ex_env_json (ex_bucket(''p/index.json'' \<mapsto> body)) = Inr ex_registry"
  "getRegistryIndex ex_env_json (ex_bucket_q(''p/index.json'' \<mapsto> body)) = Inr ex_registry_q"
  by (simp_all add: getRegistryIndex_def s3_GetObject_def ex_env_json_def ex_env_def
      ex_bucket_def ex_bucket_q_def)

lemma ex_json_UpdateIndex:
  "fst (UpdateIndex ex_env_json ex_indexer ex_bucket ex_opts) = Returned None"
  "fst (UpdateIndex ex_env_json ex_indexer ex_bucket_q ex_opts) = Returned None"
proof -
  have plug: "opts_Plugin ex_opts = ''p''" by (simp add: ex_opts_def)
  have st: "\<And>b body k. store ex_env_json ex_indexer b body k = (Inr k, b(k \<mapsto> body))"
    by (simp add: store_def s3_PutObject_def ex_env_json_def ex_env_def)
  have mr: "\<And>r. \<exists>body. json_Marshal_RegistryIndex ex_env_json r = Inr body"
    by (simp add: ex_env_json_def ex_env_def)
  show "fst (UpdateIndex ex_env_json ex_indexer ex_bucket ex_opts) = Returned None"
    using mr[of "upsertRegistry ex_registry ex_first"]
    by (auto simp: UpdateIndex_def plug ex_json_getPluginIndex ex_json_LoadMetadata ex_ToReleases
        ex_json_first_publish setPluginIndex_def ex_json_marshal st ex_json_getRegistryIndex
        setRegistryIndex_def)
  show "fst (UpdateIndex ex_env_json ex_indexer ex_bucket_q ex_opts) = Returned None"
    using mr[of "upsertRegistry ex_registry_q ex_first"]
    by (auto simp: UpdateIndex_def plug ex_json_getPluginIndex ex_json_LoadMetadata ex_ToReleases
        ex_json_first_publish setPluginIndex_def ex_json_marshal st ex_json_getRegistryIndex
        setRegistryIndex_def)
qed

text \<open>
  Publishing \<open>p\<close> into a bucket whose registry lists \<open>p\<close> and \<open>q\<close>, and into one whose
  registry lists \<open>q\<close> only: the first keeps two entries and shows the new description of
  \<open>p\<close> in its place, the second gains one entry at the end.
\<close>

theorem publish_upserts_registry_witness:
  "fst (UpdateIndex ex_env_json ex_indexer ex_bucket ex_opts) = Returned None \<and>
   ex_bucket ''index.json'' = Some ''p:An older description;q:Another plugin;'' \<and>
   snd (UpdateIndex ex_env_json ex_indexer ex_bucket ex_opts) ''index.json'' =
     Some ''p:An example plugin;q:Another plugin;'' \<and>
   fst (UpdateIndex ex_env_json ex_indexer ex_bucket_q ex_opts) = Returned None \<and>
   ex_bucket_q ''index.json'' = Some ''q:Another plugin;'' \<and>
   snd (UpdateIndex ex_env_json ex_indexer ex_bucket_q ex_opts) ''index.json'' =
     Some ''q:Another plugin;p:An example plugin;''"
proof -
  have plug: "opts_Plugin ex_opts = ''p''" by (simp add: ex_opts_def)
  have d1: "distinct (map ID (Plugins ex_registry))"
    by (simp add: ex_registry_def ex_entry_p_def ex_entry_q_def)
  have d2: "distinct (map ID (Plugins ex_registry_q))"
    by (simp add: ex_registry_q_def)
  have i1: "ID ex_first \<in> ID ` set (Plugins ex_registry)"
    by (simp add: ex_registry_def ex_entry_p_def ex_first_def)
  have i2: "ID ex_first \<notin> ID ` set (Plugins ex_registry_q)"
    by (simp add: ex_registry_q_def ex_entry_q_def ex_first_def)
  have render: "\<And>r. json_Marshal_RegistryIndex ex_env_json r = Inr (concat (map ex_render_entry (Plugins r)))"
    by (simp add: ex_env_json_def ex_env_def)
  let ?entry = "\<lparr>ID = ID ex_first, Name = Name ex_first, Icon = Icon ex_first,
              Description = Description ex_first, Official = True,
              LatestVersion = LatestVersion ex_first\<rparr>"
  have re: "ex_render_entry ?entry = ''p:An example plugin;''"
    "ex_render_entry ex_entry_q = ''q:Another plugin;''"
    by (simp_all add: ex_render_entry_def ex_first_def ex_entry_q_def)
  \<comment> \<open>the registry that lists the plugin\<close>
  let ?U1 = "UpdateIndex ex_env_json ex_indexer ex_bucket ex_opts"
  have run1: "?U1 = (Returned None, snd ?U1)"
    using ex_json_UpdateIndex(1) by (simp add: prod_eq_iff)
  from publish_upserts_registry[OF run1] obtain pluginIndex body registryIndex registryIndex' body' entry index
    where h: "getPluginIndex ex_env_json ex_bucket (opts_Plugin ex_opts) = Inr index"
      "updateIndex ex_env_json index (ToReleases ex_opts) (LoadMetadata ex_env_json (MetadataPath ex_opts)) = Returned pluginIndex"
      "json_Marshal_PluginIndex ex_env_json pluginIndex = Inr body"
      "getRegistryIndex ex_env_json (ex_bucket(PluginIndex_BucketPath pluginIndex \<mapsto> body)) = Inr registryIndex"
      "json_Marshal_RegistryIndex ex_env_json registryIndex' = Inr body'"
      "snd ?U1 = ex_bucket(PluginIndex_BucketPath pluginIndex \<mapsto> body, ''index.json'' \<mapsto> body')"
      "entry = \<lparr>ID = ID pluginIndex, Name = Name pluginIndex, Icon = Icon pluginIndex,
              Description = Description pluginIndex, Official = True,
              LatestVersion = LatestVersion pluginIndex\<rparr>"
      "distinct (map ID (Plugins registryIndex)) \<longrightarrow>
        (ID pluginIndex \<notin> ID ` set (Plugins registryIndex) \<longrightarrow>
           Plugins registryIndex' = Plugins registryIndex @ [entry]) \<and>
        (ID pluginIndex \<in> ID ` set (Plugins registryIndex) \<longrightarrow>
           length (Plugins registryIndex') = length (Plugins registryIndex) \<and>
           (\<exists>n<length (Plugins registryIndex).
              ID (Plugins registryIndex ! n) = ID pluginIndex \<and>
              Plugins registryIndex' = (Plugins registryIndex)[n := entry])) \<and>
        distinct (map ID (Plugins registryIndex'))"
    by blast
  from h(1) have "index = ex_fresh" by (simp add: plug ex_json_getPluginIndex)
  with h(2) have p: "pluginIndex = ex_first"
    by (simp add: ex_ToReleases ex_json_LoadMetadata ex_json_first_publish)
  with h(4) have r: "registryIndex = ex_registry"
    by (simp add: ex_json_marshal ex_json_getRegistryIndex)
  from h(8) p r d1 i1 obtain n where n: "n < length (Plugins ex_registry)"
    "ID (Plugins ex_registry ! n) = ID ex_first"
    "Plugins registryIndex' = (Plugins ex_registry)[n := entry]"
    by blast
  have "n = 0"
  proof (rule ccontr)
    assume "n \<noteq> 0"
    with n(1) have "n = 1" by (simp add: ex_registry_def)
    with n(2) show False by (simp add: ex_registry_def ex_entry_q_def ex_first_def)
  qed
  with n(3) h(7) p have "Plugins registryIndex' = [?entry, ex_entry_q]"
    by (simp add: ex_registry_def)
  with h(5) have "body' = ''p:An example plugin;q:Another plugin;''"
    by (simp add: render re)
  with h(6) have w1: "snd ?U1 ''index.json'' = Some ''p:An example plugin;q:Another plugin;''"
    by simp
  \<comment> \<open>the registry that does not list the plugin\<close>
  let ?U2 = "UpdateIndex ex_env_json ex_indexer ex_bucket_q ex_opts"
  have run2: "?U2 = (Returned None, snd ?U2)"
    using ex_json_UpdateIndex(2) by (simp add: prod_eq_iff)
  from publish_upserts_registry[OF run2] obtain pluginIndex body registryIndex registryIndex' body' entry index
    where k: "getPluginIndex ex_env_json ex_bucket_q (opts_Plugin ex_opts) = Inr index"
      "updateIndex ex_env_json index (ToReleases ex_opts) (LoadMetadata ex_env_json (MetadataPath ex_opts)) = Returned pluginIndex"
      "json_Marshal_PluginIndex ex_env_json pluginIndex = Inr body"
      "getRegistryIndex ex_env_json (ex_bucket_q(PluginIndex_BucketPath pluginIndex \<mapsto> body)) = Inr registryIndex"
      "json_Marshal_RegistryIndex ex_env_json registryIndex' = Inr body'"
      "snd ?U2 = ex_bucket_q(PluginIndex_BucketPath pluginIndex \<mapsto> body, ''index.json'' \<mapsto> body')"
      "entry = \<lparr>ID = ID pluginIndex, Name = Name pluginIndex, Icon = Icon pluginIndex,
              Description = Description pluginIndex, Official = True,
              LatestVersion = LatestVersion pluginIndex\<rparr>"
      "distinct (map ID (Plugins registryIndex)) \<longrightarrow>
        (ID pluginIndex \<notin> ID ` set (Plugins registryIndex) \<longrightarrow>
           Plugins registryIndex' = Plugins registryIndex @ [entry]) \<and>
        (ID pluginIndex \<in> ID ` set (Plugins registryIndex) \<longrightarrow>
           length (Plugins registryIndex') = length (Plugins registryIndex) \<and>
           (\<exists>n<length (Plugins registryIndex).
              ID (Plugins registryIndex ! n) = ID pluginIndex \<and>
              Plugins registryIndex' = (Plugins registryIndex)[n := entry])) \<and>
        distinct (map ID (Plugins registryIndex'))"
    by blast
  from k(1) have "index = ex_fresh" by (simp add: plug ex_json_getPluginIndex)
  with k(2) have p: "pluginIndex = ex_first"
    by (simp add: ex_ToReleases ex_json_LoadMetadata ex_json_first_publish)
  with k(4) have r: "registryIndex = ex_registry_q"
    by (simp add: ex_json_marshal ex_json_getRegistryIndex)
  from k(8) p r d2 i2 have "Plugins registryIndex' = Plugins ex_registry_q @ [entry]"
    by blast
  with k(7) p have "Plugins registryIndex' = [ex_entry_q, ?entry]"
    by (simp add: ex_registry_q_def)
  with k(5) have "body' = ''q:Another plugin;p:An example plugin;''"
    by (simp add: render re)
  with k(6) have w2: "snd ?U2 ''index.json'' = Some ''q:Another plugin;p:An example plugin;''"
    by simp
  have b1: "ex_bucket ''index.json'' = Some ''p:An older description;q:Another plugin;''"
    "ex_bucket_q ''index.json'' = Some ''q:Another plugin;''"
    by (simp_all add: ex_bucket_def ex_bucket_q_def)
  from ex_json_UpdateIndex w1 w2 b1 show ?thesis by blast
qed

subsection \<open>C6: the sidecar of an archive\<close>

text \<open>
  C6. Let \<open>TarGz\<close> succeed on a source directory and a destination path. Then it returns the
  destination and \<open><destination>.sha256\<close>; it has written to the destination exactly the
  bytes the gzip writer gave out, the compressed archive, and to the sidecar exactly the
  hex encoding of the SHA-256 digest of those same bytes, nothing before and nothing after
  (twice as many characters as the digest has bytes); the digest is not taken of what the tar
  writer wrote into the gzip writer. The files \<open>TarGz\<close> leaves are these, less the source
  directory, which it removes last: the sidecar and the archive are there with that content
  unless they were put under the source directory.
\<close>

theorem TarGz_sidecar_is_digest_of_compressed:
  "TarGz T sourceDir outPath fs = (Inr (archive, sidecar), fs') \<Longrightarrow>
   archive = outPath \<and> sidecar = outPath @ ''.sha256'' \<and>
   TarGz_archive T sourceDir outPath fs =
     (Inr sidecar,
      fs(outPath \<mapsto> gzip_bytes T (tar_events T sourceDir (fs(outPath \<mapsto> []))) [],
         sidecar \<mapsto> hex_EncodeToString (hasher_Sum T
                      (gzip_bytes T (tar_events T sourceDir (fs(outPath \<mapsto> []))) [])))) \<and>
   fs' = os_RemoveAll sourceDir
           (fs(outPath \<mapsto> gzip_bytes T (tar_events T sourceDir (fs(outPath \<mapsto> []))) [],
               sidecar \<mapsto> hex_EncodeToString (hasher_Sum T
                            (gzip_bytes T (tar_events T sourceDir (fs(outPath \<mapsto> []))) [])))) \<and>
   (\<not> lies_under sourceDir sidecar \<longrightarrow>
      fs' sidecar = Some (hex_EncodeToString (hasher_Sum T
                            (gzip_bytes T (tar_events T sourceDir (fs(outPath \<mapsto> []))) [])))) \<and>
   (\<not> lies_under sourceDir outPath \<longrightarrow>
      fs' outPath = Some (gzip_bytes T (tar_events T sourceDir (fs(outPath \<mapsto> []))) [])) \<and>
   length (hex_EncodeToString (hasher_Sum T
             (gzip_bytes T (tar_events T sourceDir (fs(outPath \<mapsto> []))) []))) =
     2 * length (hasher_Sum T (gzip_bytes T (tar_events T sourceDir (fs(outPath \<mapsto> []))) []))"
proof -
  assume run: "TarGz T sourceDir outPath fs = (Inr (archive, sidecar), fs')"
  let ?bytes = "gzip_bytes T (tar_events T sourceDir (fs(outPath \<mapsto> []))) []"
  let ?sum = "hex_EncodeToString (hasher_Sum T ?bytes)"
  from run obtain sha fs1 where
    a: "TarGz_archive T sourceDir outPath fs = (Inr sha, fs1)" and
    r: "archive = outPath" "sidecar = sha" "fs' = os_RemoveAll sourceDir fs1"
    by (auto simp: TarGz_def split: sum.splits prod.splits option.splits)
  from TarGz_archive_Inr(1,2)[OF a] r(2)
  have s: "sidecar = outPath @ ''.sha256''" and
    fs1: "fs1 = fs(outPath \<mapsto> ?bytes, sidecar \<mapsto> ?sum)"
    by simp_all
  have ne: "sidecar \<noteq> outPath" using s by simp
  have keep1: "\<not> lies_under sourceDir sidecar \<longrightarrow> fs' sidecar = Some ?sum"
    using r(3) fs1 by (simp add: os_RemoveAll_def)
  have keep2: "\<not> lies_under sourceDir outPath \<longrightarrow> fs' outPath = Some ?bytes"
    using r(3) fs1 ne by (simp add: os_RemoveAll_def)
  have len: "length ?sum = 2 * length (hasher_Sum T ?bytes)"
    by (rule hex_EncodeToString_length)
  from a r s fs1 keep1 keep2 len show ?thesis by simp
qed

lemma ex_tar_events:
  "tar_events ex_tenv sourceDir fs = [TarWrite ''id: p'', TarWrite ''.'']"
  by (simp add: ex_tenv_def)

lemma ex_gzip_bytes:
  "gzip_bytes ex_tenv [TarWrite ''id: p'', TarWrite ''.''] [] = [CHR 0x1F, CHR 0x8B] @ ''.p :di''"
  by (simp add: ex_tenv_def)

lemma ex_TarGz_fst:
  "fst (TarGz ex_tenv ''plugin/out/linux_amd64'' ''plugin/out/linux_amd64.tar.gz'' ex_files) =
     Inr (''plugin/out/linux_amd64.tar.gz'', ''plugin/out/linux_amd64.tar.gz.sha256'')"
  by (simp add: TarGz_def TarGz_archive_def MultiWriter_Write_def ex_tenv_def Let_def)

text \<open>
  Archiving the staging directory of \<open>linux/amd64\<close>: the sidecar holds the hex digits of the
  stand-in digest of the compressed bytes (their first two bytes, \<open>1f 8b\<close>), not those of
  the tar writer's bytes (\<open>69 64\<close>), and the staged descriptor is gone.
\<close>

theorem TarGz_sidecar_is_digest_of_compressed_witness:
  "fst (TarGz ex_tenv ''plugin/out/linux_amd64'' ''plugin/out/linux_amd64.tar.gz'' ex_files) =
     Inr (''plugin/out/linux_amd64.tar.gz'', ''plugin/out/linux_amd64.tar.gz.sha256'') \<and>
   snd (TarGz ex_tenv ''plugin/out/linux_amd64'' ''plugin/out/linux_amd64.tar.gz'' ex_files)
       ''plugin/out/linux_amd64.tar.gz'' = Some ([CHR 0x1F, CHR 0x8B] @ ''.p :di'') \<and>
   snd (TarGz ex_tenv ''plugin/out/linux_amd64'' ''plugin/out/linux_amd64.tar.gz'' ex_files)
       ''plugin/out/linux_amd64.tar.gz.sha256'' = Some ''1f8b'' \<and>
   hasher_Sum ex_tenv ([CHR 0x1F, CHR 0x8B] @ ''.p :di'') = [CHR 0x1F, CHR 0x8B] \<and>
   tar_bytes (tar_events ex_tenv ''plugin/out/linux_amd64'' (ex_files(''plugin/out/linux_amd64.tar.gz'' \<mapsto> []))) =
     ''id: p.'' \<and>
   hex_EncodeToString (hasher_Sum ex_tenv
     (tar_bytes (tar_events ex_tenv ''plugin/out/linux_amd64'' (ex_files(''plugin/out/linux_amd64.tar.gz'' \<mapsto> []))))) =
     ''6964'' \<and>
   snd (TarGz ex_tenv ''plugin/out/linux_amd64'' ''plugin/out/linux_amd64.tar.gz'' ex_files)
       ''plugin/out/linux_amd64/plugin.yaml'' = None \<and>
   ex_files ''plugin/out/linux_amd64/plugin.yaml'' = Some ''id: p''"
proof -
  let ?src = "''plugin/out/linux_amd64''"
  let ?out = "''plugin/out/linux_amd64.tar.gz''"
  let ?sha = "''plugin/out/linux_amd64.tar.gz.sha256''"
  let ?U = "TarGz ex_tenv ?src ?out ex_files"
  have run: "?U = (Inr (?out, ?sha), snd ?U)"
    using ex_TarGz_fst by (simp add: prod_eq_iff)
  note t = TarGz_sidecar_is_digest_of_compressed[OF run]
  have u1: "\<not> lies_under ?src ?sha" by (simp add: lies_under_def)
  have u2: "\<not> lies_under ?src ?out" by (simp add: lies_under_def)
  have u3: "lies_under ?src ''plugin/out/linux_amd64/plugin.yaml''" by (simp add: lies_under_def)
  have h: "hasher_Sum ex_tenv ([CHR 0x1F, CHR 0x8B] @ ''.p :di'') = [CHR 0x1F, CHR 0x8B]"
    by (simp add: ex_tenv_def)
  have hx: "hex_EncodeToString [CHR 0x1F, CHR 0x8B] = ''1f8b''"
    by (simp add: hex_EncodeToString_def hex_Encode_def hextable_def)
  from t u2 have "snd ?U ?out =
      Some (gzip_bytes ex_tenv (tar_events ex_tenv ?src (ex_files(?out \<mapsto> []))) [])"
    by blast
  then have f: "snd ?U ?out = Some ([CHR 0x1F, CHR 0x8B] @ ''.p :di'')"
    by (simp only: ex_tar_events ex_gzip_bytes)
  from t u1 have "snd ?U ?sha =
      Some (hex_EncodeToString (hasher_Sum ex_tenv
              (gzip_bytes ex_tenv (tar_events ex_tenv ?src (ex_files(?out \<mapsto> []))) [])))"
    by blast
  then have g: "snd ?U ?sha = Some ''1f8b''"
    by (simp only: ex_tar_events ex_gzip_bytes h hx)
  from t have "snd ?U = os_RemoveAll ?src
      (ex_files(?out \<mapsto> gzip_bytes ex_tenv (tar_events ex_tenv ?src (ex_files(?out \<mapsto> []))) [],
                ?sha \<mapsto> hex_EncodeToString (hasher_Sum ex_tenv
                           (gzip_bytes ex_tenv (tar_events ex_tenv ?src (ex_files(?out \<mapsto> []))) []))))"
    by blast
  then have gone: "snd ?U ''plugin/out/linux_amd64/plugin.yaml'' = None"
    using u3 by (simp add: os_RemoveAll_def)
  have tb: "tar_bytes (tar_events ex_tenv ?src (ex_files(?out \<mapsto> []))) = ''id: p.''"
    by (simp add: ex_tar_events)
  have there: "ex_files ''plugin/out/linux_amd64/plugin.yaml'' = Some ''id: p''"
    by (simp add: ex_files_def)
  have hx2: "hex_EncodeToString (hasher_Sum ex_tenv ''id: p.'') = ''6964''"
    by (simp add: ex_tenv_def hex_EncodeToString_def hex_Encode_def hextable_def)
  from ex_TarGz_fst f g h tb hx2 gone there show ?thesis by (simp only: tb)
qed

subsection \<open>C7: the binary build step when the binary is there\<close>

text \<open>
  C7. The expected output binary of a platform is \<open><output>/bin/plugin\<close>, \<open>plugin.exe\<close> on
  windows. If \<open>os.Stat\<close> succeeds on it, \<open>buildBinary\<close> returns \<open>nil\<close> and changes nothing: no
  sub-process is started. So invoked twice in a row it returns \<open>nil\<close> both times and the
  state after the second invocation is the state before the first. If \<open>os.Stat\<close> fails on
  it, \<open>buildBinary\<close> starts exactly one sub-process, \<open>go build -o <binary> ./pkg\<close> in the
  plugin directory with \<open>GOOS\<close> and \<open>GOARCH\<close> set.
\<close>

theorem buildBinary_idempotent:
  "(buildBinary_outPath P output plat \<in> statable s \<longrightarrow>
      buildBinary P pluginDir output plat s = (None, s) \<and>
      buildBinary P pluginDir output plat (snd (buildBinary P pluginDir output plat s)) = (None, s) \<and>
      commands (snd (buildBinary P pluginDir output plat s)) = commands s) \<and>
   (buildBinary_outPath P output plat \<notin> statable s \<longrightarrow>
      commands (snd (buildBinary P pluginDir output plat s)) =
        commands s @
        [\<lparr>cmd_Name = ''go'',
          cmd_Args = [''build'', ''-o'', buildBinary_outPath P output plat, ''./pkg''],
          cmd_Dir = pluginDir,
          cmd_Env = os_Environ P @ [''GOOS='' @ plat_OS plat, ''GOARCH='' @ plat_Arch plat]\<rparr>]) \<and>
   buildBinary_outPath P output plat =
     filepath_Join P [output, ''bin'', if plat_OS plat = ''windows'' then ''plugin.exe'' else ''plugin'']"
proof -
  have a: "buildBinary_outPath P output plat \<in> statable s \<longrightarrow>
      buildBinary P pluginDir output plat s = (None, s) \<and>
      buildBinary P pluginDir output plat (snd (buildBinary P pluginDir output plat s)) = (None, s) \<and>
      commands (snd (buildBinary P pluginDir output plat s)) = commands s"
    by (simp add: buildBinary_def)
  have b: "buildBinary_outPath P output plat \<notin> statable s \<longrightarrow>
      commands (snd (buildBinary P pluginDir output plat s)) =
        commands s @
        [\<lparr>cmd_Name = ''go'',
          cmd_Args = [''build'', ''-o'', buildBinary_outPath P output plat, ''./pkg''],
          cmd_Dir = pluginDir,
          cmd_Env = os_Environ P @ [''GOOS='' @ plat_OS plat, ''GOARCH='' @ plat_Arch plat]\<rparr>]"
    by (auto simp: buildBinary_def Let_def split: prod.splits option.splits)
  have c: "buildBinary_outPath P output plat =
     filepath_Join P [output, ''bin'', if plat_OS plat = ''windows'' then ''plugin.exe'' else ''plugin'']"
    by (simp add: buildBinary_outPath_def binName_def)
  from a b c show ?thesis by blast
qed

lemma ex_outPath:
  "buildBinary_outPath ex_penv ''plugin/out/linux_amd64'' ex_linux = ''plugin/out/linux_amd64/bin/plugin''"
  by (simp add: buildBinary_outPath_def binName_def ex_penv_def ex_linux_def)

lemma ex_buildBinary_unbuilt:
  "buildBinary ex_penv ''plugin'' ''plugin/out/linux_amd64'' ex_linux ex_unbuilt =
     (None, \<lparr>statable = {''plugin/out/linux_amd64/bin/plugin''}, commands = [ex_go_build]\<rparr>)"
  by (simp add: buildBinary_def ex_outPath ex_unbuilt_def ex_go_build_def Let_def)
    (simp add: ex_penv_def ex_linux_def)

text \<open>
  The \<open>linux/amd64\<close> target with its binary in place and no sub-process started so far; and
  the same target with no binary yet, built by a compiler that creates it, then built again.
\<close>

theorem buildBinary_idempotent_witness:
  "buildBinary_outPath ex_penv ''plugin/out/linux_amd64'' ex_linux \<in> statable ex_built \<and>
   buildBinary_outPath ex_penv ''plugin/out/linux_amd64'' ex_linux = ''plugin/out/linux_amd64/bin/plugin'' \<and>
   buildBinary ex_penv ''plugin'' ''plugin/out/linux_amd64'' ex_linux ex_built = (None, ex_built) \<and>
   buildBinary ex_penv ''plugin'' ''plugin/out/linux_amd64'' ex_linux
     (snd (buildBinary ex_penv ''plugin'' ''plugin/out/linux_amd64'' ex_linux ex_built)) = (None, ex_built) \<and>
   commands (snd (buildBinary ex_penv ''plugin'' ''plugin/out/linux_amd64'' ex_linux ex_built)) = [] \<and>
   buildBinary_outPath ex_penv ''plugin/out/linux_amd64'' ex_linux \<notin> statable ex_unbuilt \<and>
   commands (snd (buildBinary ex_penv ''plugin'' ''plugin/out/linux_amd64'' ex_linux ex_unbuilt)) =
     [ex_go_build] \<and>
   buildBinary ex_penv ''plugin'' ''plugin/out/linux_amd64'' ex_linux
     (snd (buildBinary ex_penv ''plugin'' ''plugin/out/linux_amd64'' ex_linux ex_unbuilt)) =
     (None, \<lparr>statable = {''plugin/out/linux_amd64/bin/plugin''}, commands = [ex_go_build]\<rparr>)"
proof -
  let ?dir = "''plugin/out/linux_amd64''"
  let ?s1 = "\<lparr>statable = {''plugin/out/linux_amd64/bin/plugin''}, commands = [ex_go_build]\<rparr>"
  have h: "buildBinary_outPath ex_penv ?dir ex_linux \<in> statable ex_built"
    by (simp only: ex_outPath) (simp add: ex_built_def)
  have n: "buildBinary_outPath ex_penv ?dir ex_linux \<notin> statable ex_unbuilt"
    by (simp add: ex_unbuilt_def)
  have h1: "buildBinary_outPath ex_penv ?dir ex_linux \<in> statable ?s1"
    by (simp only: ex_outPath) simp
  have c: "commands ex_built = []" "commands ex_unbuilt = []"
    by (simp_all add: ex_built_def ex_unbuilt_def)
  note t = buildBinary_idempotent[of ex_penv ?dir ex_linux ex_built "''plugin''"]
  note t' = buildBinary_idempotent[of ex_penv ?dir ex_linux ex_unbuilt "''plugin''"]
  note t1 = buildBinary_idempotent[of ex_penv ?dir ex_linux ?s1 "''plugin''"]
  from t h c have a: "buildBinary ex_penv ''plugin'' ?dir ex_linux ex_built = (None, ex_built)"
    "buildBinary ex_penv ''plugin'' ?dir ex_linux
       (snd (buildBinary ex_penv ''plugin'' ?dir ex_linux ex_built)) = (None, ex_built)"
    "commands (snd (buildBinary ex_penv ''plugin'' ?dir ex_linux ex_built)) = []"
    by simp_all
  from t' n c have b: "commands (snd (buildBinary ex_penv ''plugin'' ?dir ex_linux ex_unbuilt)) = [ex_go_build]"
    by (simp add: ex_outPath ex_go_build_def ex_penv_def ex_linux_def)
  from t1 h1 have "buildBinary ex_penv ''plugin'' ?dir ex_linux ?s1 = (None, ?s1)" by blast
  then have d: "buildBinary ex_penv ''plugin'' ?dir ex_linux
       (snd (buildBinary ex_penv ''plugin'' ?dir ex_linux ex_unbuilt)) = (None, ?s1)"
    by (simp add: ex_buildBinary_unbuilt)
  from h ex_outPath a n b d show ?thesis by blast
qed

subsection \<open>C8: store errors of an upload\<close>

text \<open>
  C8. Let the release's file open. When the store rejects the \<open>PutObject\<close> with an API error
  of code \<open>EntityTooLarge\<close>, \<open>Upload\<close> returns the distinguished error \<open>error while uploading
  object to <bucket>: the object is too large\<close>, which is not the generic one. Every other
  error of the \<open>PutObject\<close> is returned as \<open>couldn't upload file <path> to
  <bucket>:<key>: <error>\<close>: its message has the target key and the store's error in it. In
  both cases nothing is stored. An error of the wait that follows a \<open>PutObject\<close> is returned
  with the target key in its message as well.
\<close>

theorem Upload_store_errors:
  "os_Open E (Path r) = None \<Longrightarrow>
   (\<forall>err. s3_PutObject_err E (BucketPath r) = Some err \<longrightarrow>
      (errors_As_APIError err = Some ''EntityTooLarge'' \<longrightarrow>
         Upload E p b r =
           (Inl (errorString (''error while uploading object to '' @ Publisher_bucket p
                              @ '': the object is too large'')), b)) \<and>
      (errors_As_APIError err \<noteq> Some ''EntityTooLarge'' \<longrightarrow>
         Upload E p b r =
           (Inl (errorString (''couldn't upload file '' @ Path r @ '' to '' @ Publisher_bucket p
                              @ '':'' @ BucketPath r @ '': '' @ Error err)), b)) \<and>
      sublist (BucketPath r)
        (''couldn't upload file '' @ Path r @ '' to '' @ Publisher_bucket p
         @ '':'' @ BucketPath r @ '': '' @ Error err) \<and>
      carries (errorString (''couldn't upload file '' @ Path r @ '' to '' @ Publisher_bucket p
                            @ '':'' @ BucketPath r @ '': '' @ Error err)) err \<and>
      ''error while uploading object to '' @ Publisher_bucket p @ '': the object is too large'' \<noteq>
        ''couldn't upload file '' @ Path r @ '' to '' @ Publisher_bucket p
         @ '':'' @ BucketPath r @ '': '' @ Error err) \<and>
   (\<forall>err. s3_PutObject_err E (BucketPath r) = None \<longrightarrow>
      s3_Wait_err E (BucketPath r) = Some err \<longrightarrow>
      Upload E p b r =
        (Inl (errorString (''failed attempt to wait for object '' @ BucketPath r @ '' to exist'')),
         b(BucketPath r \<mapsto> file_bytes E (Path r))) \<and>
      sublist (BucketPath r) (''failed attempt to wait for object '' @ BucketPath r @ '' to exist''))"
proof -
  assume o: "os_Open E (Path r) = None"
  let ?generic = "\<lambda>err. ''couldn't upload file '' @ Path r @ '' to '' @ Publisher_bucket p
         @ '':'' @ BucketPath r @ '': '' @ Error err"
  have k: "\<And>err. sublist (BucketPath r) (?generic err)"
  proof -
    fix err
    have "sublist (BucketPath r)
       ((''couldn't upload file '' @ Path r @ '' to '' @ Publisher_bucket p @ '':'')
        @ BucketPath r @ ('': '' @ Error err))"
      by (rule sublist_appendI)
    then show "sublist (BucketPath r) (?generic err)" by simp
  qed
  have w: "\<And>err. carries (errorString (?generic err)) err"
  proof -
    fix err
    have "sublist (Error err)
       ((''couldn't upload file '' @ Path r @ '' to '' @ Publisher_bucket p @ '':''
         @ BucketPath r @ '': '') @ Error err)"
      by (rule sublist_append_leftI)
    then show "carries (errorString (?generic err)) err" by (simp add: carries_def)
  qed
  have kw: "sublist (BucketPath r) (''failed attempt to wait for object '' @ BucketPath r @ '' to exist'')"
    by (rule sublist_appendI)
  have put: "\<forall>err. s3_PutObject_err E (BucketPath r) = Some err \<longrightarrow>
      (errors_As_APIError err = Some ''EntityTooLarge'' \<longrightarrow>
         Upload E p b r =
           (Inl (errorString (''error while uploading object to '' @ Publisher_bucket p
                              @ '': the object is too large'')), b)) \<and>
      (errors_As_APIError err \<noteq> Some ''EntityTooLarge'' \<longrightarrow>
         Upload E p b r = (Inl (errorString (?generic err)), b))"
    using o by (simp add: Upload_def s3_PutObject_def)
  have wait: "\<forall>err. s3_PutObject_err E (BucketPath r) = None \<longrightarrow>
      s3_Wait_err E (BucketPath r) = Some err \<longrightarrow>
      Upload E p b r =
        (Inl (errorString (''failed attempt to wait for object '' @ BucketPath r @ '' to exist'')),
         b(BucketPath r \<mapsto> file_bytes E (Path r)))"
    using o by (simp add: Upload_def s3_PutObject_def)
  have ne: "\<And>err. ''error while uploading object to '' @ Publisher_bucket p @ '': the object is too large'' \<noteq>
        ?generic err"
    by simp
  from put wait k w kw ne show ?thesis by simp
qed

text \<open>
  The store rejecting the release for its size, and the store denying access.
\<close>

theorem Upload_store_errors_witness:
  "os_Open ex_env_too_large (Path ex_release) = None \<and>
   s3_PutObject_err ex_env_too_large (BucketPath ex_release) = Some ex_too_large \<and>
   errors_As_APIError ex_too_large = Some ''EntityTooLarge'' \<and>
   Upload ex_env_too_large ex_publisher Map.empty ex_release =
     (Inl (errorString ''error while uploading object to registry: the object is too large''), Map.empty) \<and>
   s3_PutObject_err ex_env_access_denied (BucketPath ex_release) = Some ex_access_denied \<and>
   errors_As_APIError ex_access_denied = Some ''AccessDenied'' \<and>
   Upload ex_env_access_denied ex_publisher Map.empty ex_release =
     (Inl (errorString (''couldn't upload file dist/linux_amd64.tar.gz to registry:p/1.2.0/linux-amd64.tar.gz: ''
                        @ Error ex_access_denied)), Map.empty) \<and>
   sublist ''p/1.2.0/linux-amd64.tar.gz''
     (''couldn't upload file dist/linux_amd64.tar.gz to registry:p/1.2.0/linux-amd64.tar.gz: ''
      @ Error ex_access_denied)"
proof -
  have o1: "os_Open ex_env_too_large (Path ex_release) = None"
    by (simp add: ex_env_too_large_def ex_env_def)
  have o2: "os_Open ex_env_access_denied (Path ex_release) = None"
    by (simp add: ex_env_access_denied_def ex_env_def)
  have p1: "s3_PutObject_err ex_env_too_large (BucketPath ex_release) = Some ex_too_large"
    by (simp add: ex_env_too_large_def ex_env_def)
  have p2: "s3_PutObject_err ex_env_access_denied (BucketPath ex_release) = Some ex_access_denied"
    by (simp add: ex_env_access_denied_def ex_env_def)
  have c1: "errors_As_APIError ex_too_large = Some ''EntityTooLarge''"
    by (simp add: ex_too_large_def)
  have c2: "errors_As_APIError ex_access_denied = Some ''AccessDenied''"
    by (simp add: ex_access_denied_def)
  have c2': "errors_As_APIError ex_access_denied \<noteq> Some ''EntityTooLarge''"
    by (simp add: ex_access_denied_def)
  have v: "Path ex_release = ''dist/linux_amd64.tar.gz''" "Publisher_bucket ex_publisher = ''registry''"
    "BucketPath ex_release = ''p/1.2.0/linux-amd64.tar.gz''"
    by (simp_all add: ex_release_def ex_publisher_def BucketPath_def)
  note t1 = Upload_store_errors[OF o1, of ex_publisher Map.empty, THEN conjunct1, rule_format, OF p1]
  note t2 = Upload_store_errors[OF o2, of ex_publisher Map.empty, THEN conjunct1, rule_format, OF p2]
  from t1 c1 have u1: "Upload ex_env_too_large ex_publisher Map.empty ex_release =
     (Inl (errorString ''error while uploading object to registry: the object is too large''), Map.empty)"
    by (simp add: v)
  from t2 c2' have u2: "Upload ex_env_access_denied ex_publisher Map.empty ex_release =
     (Inl (errorString (''couldn't upload file dist/linux_amd64.tar.gz to registry:p/1.2.0/linux-amd64.tar.gz: ''
                        @ Error ex_access_denied)), Map.empty)"
    by (simp add: v)
  from t2 have u3: "sublist ''p/1.2.0/linux-amd64.tar.gz''
     (''couldn't upload file dist/linux_amd64.tar.gz to registry:p/1.2.0/linux-amd64.tar.gz: ''
      @ Error ex_access_denied)"
    by (simp add: v)
  from o1 p1 c1 u1 p2 c2 u2 u3 show ?thesis by blast
qed

subsection \<open>C9: publishing with no release\<close>

text \<open>
  C9, as amended. When the six per-platform paths of the options are all empty, the derived
  release list is empty and the merge step \<open>updateIndex\<close> panics with \<open>cannot submit an
  empty number of releases\<close>; it has no error value to return. \<open>UpdateIndex\<close> reaches the
  merge step, and panics, whenever it has fetched or made the plugin catalog; when that
  fetch fails it returns the fetch error before the merge step, without a panic. In neither
  case does it return \<open>nil\<close> or write to the bucket.
\<close>

theorem empty_release_set_panics_after_fetch:
  "DarwinARM64 opts = [] \<Longrightarrow> DarwinAMD64 opts = [] \<Longrightarrow> WindowsARM64 opts = [] \<Longrightarrow>
   WindowsAMD64 opts = [] \<Longrightarrow> LinuxARM64 opts = [] \<Longrightarrow> LinuxAMD64 opts = [] \<Longrightarrow>
   ToReleases opts = [] \<and>
   updateIndex E index (ToReleases opts) metadata = Panic ''cannot submit an empty number of releases'' \<and>
   (\<forall>index. getPluginIndex E b (opts_Plugin opts) = Inr index \<longrightarrow>
      UpdateIndex E i b opts = (Panic ''cannot submit an empty number of releases'', b)) \<and>
   (\<forall>err. getPluginIndex E b (opts_Plugin opts) = Inl err \<longrightarrow>
      UpdateIndex E i b opts = (Returned (Some err), b)) \<and>
   fst (UpdateIndex E i b opts) \<noteq> Returned None \<and>
   snd (UpdateIndex E i b opts) = b"
proof -
  assume "DarwinARM64 opts = []" "DarwinAMD64 opts = []" "WindowsARM64 opts = []"
    "WindowsAMD64 opts = []" "LinuxARM64 opts = []" "LinuxAMD64 opts = []"
  then have r: "ToReleases opts = []" by (rule ToReleases_empty)
  have p: "updateIndex E index (ToReleases opts) metadata = Panic ''cannot submit an empty number of releases''"
    using r by (simp add: updateIndex_def)
  note u = UpdateIndex_no_releases[OF r, of E i b]
  show ?thesis
  proof (cases "getPluginIndex E b (opts_Plugin opts)")
    case (Inl err)
    with u r p show ?thesis by simp
  next
    case (Inr index')
    with u r p show ?thesis by simp
  qed
qed

lemma ex_opts_empty_fields:
  "DarwinARM64 ex_opts_empty = []" "DarwinAMD64 ex_opts_empty = []" "WindowsARM64 ex_opts_empty = []"
  "WindowsAMD64 ex_opts_empty = []" "LinuxARM64 ex_opts_empty = []" "LinuxAMD64 ex_opts_empty = []"
  "opts_Plugin ex_opts_empty = ''p''"
  by (simp_all add: ex_opts_empty_def)

lemma ex_getPluginIndex_no_fetch:
  "getPluginIndex ex_env_no_fetch Map.empty ''p'' =
     Inl (errorString ''couldn't get plugin index: operation error S3: GetObject, request send failed'')"
  by (simp add: getPluginIndex_def s3_GetObject_def ex_env_no_fetch_def ex_env_def)

text \<open>Options with no path, when the catalog is absent and when fetching it fails.\<close>

theorem empty_release_set_panics_after_fetch_witness:
  "ToReleases ex_opts_empty = [] \<and>
   getPluginIndex ex_env Map.empty (opts_Plugin ex_opts_empty) = Inr ex_fresh \<and>
   UpdateIndex ex_env ex_indexer Map.empty ex_opts_empty =
     (Panic ''cannot submit an empty number of releases'', Map.empty) \<and>
   UpdateIndex ex_env_no_fetch ex_indexer Map.empty ex_opts_empty =
     (Returned (Some (errorString ''couldn't get plugin index: operation error S3: GetObject, request send failed'')),
      Map.empty)"
proof -
  note t1 = empty_release_set_panics_after_fetch[OF ex_opts_empty_fields(1-6),
      where E = ex_env and b = Map.empty and i = ex_indexer]
  note t2 = empty_release_set_panics_after_fetch[OF ex_opts_empty_fields(1-6),
      where E = ex_env_no_fetch and b = Map.empty and i = ex_indexer]
  have g: "getPluginIndex ex_env Map.empty (opts_Plugin ex_opts_empty) = Inr ex_fresh"
    by (simp add: ex_opts_empty_fields ex_getPluginIndex)
  have g': "getPluginIndex ex_env_no_fetch Map.empty (opts_Plugin ex_opts_empty) =
     Inl (errorString ''couldn't get plugin index: operation error S3: GetObject, request send failed'')"
    by (simp add: ex_opts_empty_fields ex_getPluginIndex_no_fetch)
  from t1 have r: "ToReleases ex_opts_empty = []" by blast
  from t1 g have u1: "UpdateIndex ex_env ex_indexer Map.empty ex_opts_empty =
     (Panic ''cannot submit an empty number of releases'', Map.empty)" by blast
  from t2 g' have u2: "UpdateIndex ex_env_no_fetch ex_indexer Map.empty ex_opts_empty =
     (Returned (Some (errorString ''couldn't get plugin index: operation error S3: GetObject, request send failed'')),
      Map.empty)" by blast
  from r g u1 u2 show ?thesis by blast
qed

text \<open>
  C9 as stated fails when the plugin catalog cannot be fetched: with all six paths empty,
  \<open>UpdateIndex\<close> returns, with an error value, and there is no panic.
\<close>

theorem empty_release_set_returns_fetch_error_counterexample:
  "DarwinARM64 ex_opts_empty = [] \<and> DarwinAMD64 ex_opts_empty = [] \<and>
   WindowsARM64 ex_opts_empty = [] \<and> WindowsAMD64 ex_opts_empty = [] \<and>
   LinuxARM64 ex_opts_empty = [] \<and> LinuxAMD64 ex_opts_empty = [] \<and>
   ToReleases ex_opts_empty = [] \<and>
   s3_GetObject_err ex_env_no_fetch ''p/index.json'' =
     Some (errorString ''operation error S3: GetObject, request send failed'') \<and>
   UpdateIndex ex_env_no_fetch ex_indexer Map.empty ex_opts_empty =
     (Returned (Some (errorString ''couldn't get plugin index: operation error S3: GetObject, request send failed'')),
      Map.empty)"
proof -
  have r: "ToReleases ex_opts_empty = []"
    by (simp add: ToReleases_def append_release_def ex_opts_empty_def)
  have e: "s3_GetObject_err ex_env_no_fetch ''p/index.json'' =
     Some (errorString ''operation error S3: GetObject, request send failed'')"
    by (simp add: ex_env_no_fetch_def ex_env_def)
  have u: "UpdateIndex ex_env_no_fetch ex_indexer Map.empty ex_opts_empty =
     (Returned (Some (errorString ''couldn't get plugin index: operation error S3: GetObject, request send failed'')),
      Map.empty)"
    by (simp add: UpdateIndex_def ex_opts_empty_fields ex_getPluginIndex_no_fetch)
  from r e u ex_opts_empty_fields(1-6) show ?thesis by blast
qed

lemma store_ok:
  "s3_PutObject_err E k = None \<Longrightarrow> s3_Wait_err E k = None \<Longrightarrow>
   store E i b body k = (Inr k, b(k \<mapsto> body))"
  by (simp add: store_def s3_PutObject_def)

lemma UpdateIndex_returns_nil:
  assumes gi: "getPluginIndex E b (opts_Plugin opts) = Inr index"
    and ui: "updateIndex E index (ToReleases opts) (LoadMetadata E (MetadataPath opts)) = Returned pluginIndex"
    and m1: "json_Marshal_PluginIndex E pluginIndex = Inr body"
    and s1: "s3_PutObject_err E (PluginIndex_BucketPath pluginIndex) = None"
            "s3_Wait_err E (PluginIndex_BucketPath pluginIndex) = None"
    and gr: "getRegistryIndex E (b(PluginIndex_BucketPath pluginIndex \<mapsto> body)) = Inr registryIndex"
    and m2: "json_Marshal_RegistryIndex E (upsertRegistry registryIndex pluginIndex) = Inr body'"
    and s2: "s3_PutObject_err E ''index.json'' = None" "s3_Wait_err E ''index.json'' = None"
  shows "UpdateIndex E i b opts =
           (Returned None, b(PluginIndex_BucketPath pluginIndex \<mapsto> body, ''index.json'' \<mapsto> body'))"
proof -
  have a: "setPluginIndex E i b pluginIndex =
      (Inr (PluginIndex_BucketPath pluginIndex), b(PluginIndex_BucketPath pluginIndex \<mapsto> body))"
    using m1 s1 by (simp add: setPluginIndex_def store_ok)
  have c: "setRegistryIndex E i (b(PluginIndex_BucketPath pluginIndex \<mapsto> body))
             (upsertRegistry registryIndex pluginIndex) =
      (Inr ''index.json'', b(PluginIndex_BucketPath pluginIndex \<mapsto> body, ''index.json'' \<mapsto> body'))"
    using m2 s2 by (simp add: setRegistryIndex_def store_ok)
  show ?thesis
    by (simp add: UpdateIndex_def Let_def gi ui a gr c)
qed

subsection \<open>C10: a descriptor that cannot be loaded\<close>

text \<open>
  C10. When the descriptor file cannot be opened, or opens and fails to decode,
  \<open>LoadMetadata\<close> returns the zero descriptor; its result type has no error. The
  synchronization goes on with it: the merge step returns whenever the releases' files open
  and read, and when nothing else fails (the catalogs are fetched, encoded and stored)
  \<open>UpdateIndex\<close> returns \<open>nil\<close>. Every catalog the merge step returns, and the plugin catalog
  that a successful \<open>UpdateIndex\<close> has stored under the plugin's key, has the empty string as
  name, icon and description.
\<close>

theorem unloadable_descriptor_empties_display_fields:
  "os_Open E (MetadataPath opts) \<noteq> None \<or> (\<exists>err. yaml_Decode E (MetadataPath opts) = Inl err) \<Longrightarrow>
   LoadMetadata E (MetadataPath opts) = PluginMeta_zero \<and>
   (\<forall>index releases index'.
      updateIndex E index releases (LoadMetadata E (MetadataPath opts)) = Returned index' \<longrightarrow>
      Name index' = [] \<and> Icon index' = [] \<and> Description index' = []) \<and>
   (\<forall>index. getPluginIndex E b (opts_Plugin opts) = Inr index \<longrightarrow>
      ToReleases opts \<noteq> [] \<longrightarrow>
      (\<forall>r\<in>set (ToReleases opts). Plugin r = ID index \<longrightarrow>
          os_Open E (Path r) = None \<and> io_Copy_err E (Path r) = None) \<longrightarrow>
      (\<exists>pluginIndex.
          updateIndex E index (ToReleases opts) (LoadMetadata E (MetadataPath opts)) = Returned pluginIndex \<and>
          ((\<forall>x. \<exists>body. json_Marshal_PluginIndex E x = Inr body) \<longrightarrow>
           (\<forall>x. \<exists>body. json_Marshal_RegistryIndex E x = Inr body) \<longrightarrow>
           (\<forall>key. s3_PutObject_err E key = None \<and> s3_Wait_err E key = None) \<longrightarrow>
           (\<forall>body. \<exists>registryIndex.
               getRegistryIndex E (b(PluginIndex_BucketPath pluginIndex \<mapsto> body)) = Inr registryIndex) \<longrightarrow>
           fst (UpdateIndex E i b opts) = Returned None))) \<and>
   (\<forall>b'. UpdateIndex E i b opts = (Returned None, b') \<longrightarrow>
      (\<exists>index pluginIndex body.
          getPluginIndex E b (opts_Plugin opts) = Inr index \<and>
          updateIndex E index (ToReleases opts) PluginMeta_zero = Returned pluginIndex \<and>
          ID pluginIndex = ID index \<and>
          json_Marshal_PluginIndex E pluginIndex = Inr body \<and>
          b' (PluginIndex_BucketPath pluginIndex) = Some body \<and>
          Name pluginIndex = [] \<and> Icon pluginIndex = [] \<and> Description pluginIndex = []))"
proof -
  assume bad: "os_Open E (MetadataPath opts) \<noteq> None \<or> (\<exists>err. yaml_Decode E (MetadataPath opts) = Inl err)"
  have z: "LoadMetadata E (MetadataPath opts) = PluginMeta_zero"
    using bad by (auto simp: LoadMetadata_def split: option.splits)
  have zf: "meta_Name PluginMeta_zero = []" "meta_Icon PluginMeta_zero = []"
    "meta_Description PluginMeta_zero = []"
    by (simp_all add: PluginMeta_zero_def)
  have m: "\<forall>index releases index'.
      updateIndex E index releases (LoadMetadata E (MetadataPath opts)) = Returned index' \<longrightarrow>
      Name index' = [] \<and> Icon index' = [] \<and> Description index' = []"
  proof (intro allI impI)
    fix index releases index'
    assume "updateIndex E index releases (LoadMetadata E (MetadataPath opts)) = Returned index'"
    from updateIndex_Returned(7,8,9)[OF this] z zf
    show "Name index' = [] \<and> Icon index' = [] \<and> Description index' = []" by simp
  qed
  have live: "\<forall>index. getPluginIndex E b (opts_Plugin opts) = Inr index \<longrightarrow>
      ToReleases opts \<noteq> [] \<longrightarrow>
      (\<forall>r\<in>set (ToReleases opts). Plugin r = ID index \<longrightarrow>
          os_Open E (Path r) = None \<and> io_Copy_err E (Path r) = None) \<longrightarrow>
      (\<exists>pluginIndex.
          updateIndex E index (ToReleases opts) (LoadMetadata E (MetadataPath opts)) = Returned pluginIndex \<and>
          ((\<forall>x. \<exists>body. json_Marshal_PluginIndex E x = Inr body) \<longrightarrow>
           (\<forall>x. \<exists>body. json_Marshal_RegistryIndex E x = Inr body) \<longrightarrow>
           (\<forall>key. s3_PutObject_err E key = None \<and> s3_Wait_err E key = None) \<longrightarrow>
           (\<forall>body. \<exists>registryIndex.
               getRegistryIndex E (b(PluginIndex_BucketPath pluginIndex \<mapsto> body)) = Inr registryIndex) \<longrightarrow>
           fst (UpdateIndex E i b opts) = Returned None))"
  proof (intro allI impI)
    fix index
    assume gi: "getPluginIndex E b (opts_Plugin opts) = Inr index"
      and ne: "ToReleases opts \<noteq> []"
      and ok: "\<forall>r\<in>set (ToReleases opts). Plugin r = ID index \<longrightarrow>
          os_Open E (Path r) = None \<and> io_Copy_err E (Path r) = None"
    from updateIndex_Returned_ex[OF ne ok] obtain pluginIndex where
      ui: "updateIndex E index (ToReleases opts) (LoadMetadata E (MetadataPath opts)) = Returned pluginIndex"
      by blast
    have "(\<forall>x. \<exists>body. json_Marshal_PluginIndex E x = Inr body) \<longrightarrow>
           (\<forall>x. \<exists>body. json_Marshal_RegistryIndex E x = Inr body) \<longrightarrow>
           (\<forall>key. s3_PutObject_err E key = None \<and> s3_Wait_err E key = None) \<longrightarrow>
           (\<forall>body. \<exists>registryIndex.
               getRegistryIndex E (b(PluginIndex_BucketPath pluginIndex \<mapsto> body)) = Inr registryIndex) \<longrightarrow>
           fst (UpdateIndex E i b opts) = Returned None"
    proof (intro impI)
      assume m1: "\<forall>x. \<exists>body. json_Marshal_PluginIndex E x = Inr body"
        and m2: "\<forall>x. \<exists>body. json_Marshal_RegistryIndex E x = Inr body"
        and st: "\<forall>key. s3_PutObject_err E key = None \<and> s3_Wait_err E key = None"
        and gr: "\<forall>body. \<exists>registryIndex.
               getRegistryIndex E (b(PluginIndex_BucketPath pluginIndex \<mapsto> body)) = Inr registryIndex"
      from m1 obtain body where b1: "json_Marshal_PluginIndex E pluginIndex = Inr body" by blast
      from gr obtain registryIndex where
        g: "getRegistryIndex E (b(PluginIndex_BucketPath pluginIndex \<mapsto> body)) = Inr registryIndex"
        by blast
      from m2 obtain body' where
        b2: "json_Marshal_RegistryIndex E (upsertRegistry registryIndex pluginIndex) = Inr body'"
        by blast
      from st have s: "s3_PutObject_err E (PluginIndex_BucketPath pluginIndex) = None"
        "s3_Wait_err E (PluginIndex_BucketPath pluginIndex) = None"
        "s3_PutObject_err E ''index.json'' = None" "s3_Wait_err E ''index.json'' = None"
        by simp_all
      from UpdateIndex_returns_nil[OF gi ui b1 s(1,2) g b2 s(3,4)]
      show "fst (UpdateIndex E i b opts) = Returned None" by simp
    qed
    with ui show "\<exists>pluginIndex.
          updateIndex E index (ToReleases opts) (LoadMetadata E (MetadataPath opts)) = Returned pluginIndex \<and>
          ((\<forall>x. \<exists>body. json_Marshal_PluginIndex E x = Inr body) \<longrightarrow>
           (\<forall>x. \<exists>body. json_Marshal_RegistryIndex E x = Inr body) \<longrightarrow>
           (\<forall>key. s3_PutObject_err E key = None \<and> s3_Wait_err E key = None) \<longrightarrow>
           (\<forall>body. \<exists>registryIndex.
               getRegistryIndex E (b(PluginIndex_BucketPath pluginIndex \<mapsto> body)) = Inr registryIndex) \<longrightarrow>
           fst (UpdateIndex E i b opts) = Returned None)"
      by blast
  qed
  have stored: "\<forall>b'. UpdateIndex E i b opts = (Returned None, b') \<longrightarrow>
      (\<exists>index pluginIndex body.
          getPluginIndex E b (opts_Plugin opts) = Inr index \<and>
          updateIndex E index (ToReleases opts) PluginMeta_zero = Returned pluginIndex \<and>
          ID pluginIndex = ID index \<and>
          json_Marshal_PluginIndex E pluginIndex = Inr body \<and>
          b' (PluginIndex_BucketPath pluginIndex) = Some body \<and>
          Name pluginIndex = [] \<and> Icon pluginIndex = [] \<and> Description pluginIndex = [])"
  proof (intro allI impI)
    fix b'
    assume run: "UpdateIndex E i b opts = (Returned None, b')"
    from UpdateIndex_success[OF run] obtain index pluginIndex body registryIndex body' where
      h: "getPluginIndex E b (opts_Plugin opts) = Inr index"
         "updateIndex E index (ToReleases opts) (LoadMetadata E (MetadataPath opts)) = Returned pluginIndex"
         "json_Marshal_PluginIndex E pluginIndex = Inr body"
         "b' = b(PluginIndex_BucketPath pluginIndex \<mapsto> body, ''index.json'' \<mapsto> body')"
      by blast
    have ne: "PluginIndex_BucketPath pluginIndex \<noteq> ''index.json''"
    proof
      assume "PluginIndex_BucketPath pluginIndex = ''index.json''"
      then have "length (PluginIndex_BucketPath pluginIndex) = length ''index.json''" by simp
      then show False by (simp add: PluginIndex_BucketPath_def)
    qed
    from h(4) ne have st: "b' (PluginIndex_BucketPath pluginIndex) = Some body" by simp
    from m h(2) have e: "Name pluginIndex = [] \<and> Icon pluginIndex = [] \<and> Description pluginIndex = []"
      by blast
    from updateIndex_Returned(10)[OF h(2)] have id: "ID pluginIndex = ID index" .
    from h(2) z have u: "updateIndex E index (ToReleases opts) PluginMeta_zero = Returned pluginIndex"
      by simp
    from h(1) u id h(3) st e show "\<exists>index pluginIndex body.
          getPluginIndex E b (opts_Plugin opts) = Inr index \<and>
          updateIndex E index (ToReleases opts) PluginMeta_zero = Returned pluginIndex \<and>
          ID pluginIndex = ID index \<and>
          json_Marshal_PluginIndex E pluginIndex = Inr body \<and>
          b' (PluginIndex_BucketPath pluginIndex) = Some body \<and>
          Name pluginIndex = [] \<and> Icon pluginIndex = [] \<and> Description pluginIndex = []"
      by blast
  qed
  from z m live stored show ?thesis by blast
qed

lemma PluginIndex_BucketPath_not_root: "PluginIndex_BucketPath x \<noteq> ''index.json''"
proof
  assume "PluginIndex_BucketPath x = ''index.json''"
  then have "length (PluginIndex_BucketPath x) = length ''index.json''" by simp
  then show False by (simp add: PluginIndex_BucketPath_def)
qed

text \<open>
  Publishing \<open>p\<close> \<open>1.2.0\<close> into an empty bucket when \<open>plugin.yaml\<close> cannot be opened: the
  publish returns \<open>nil\<close> and the stored plugin catalog has no name, icon or description.
\<close>

theorem unloadable_descriptor_empties_display_fields_witness:
  "os_Open ex_env_json_no_meta (MetadataPath ex_opts) \<noteq> None \<and>
   LoadMetadata ex_env_json_no_meta (MetadataPath ex_opts) = PluginMeta_zero \<and>
   fst (UpdateIndex ex_env_json_no_meta ex_indexer Map.empty ex_opts) = Returned None \<and>
   snd (UpdateIndex ex_env_json_no_meta ex_indexer Map.empty ex_opts) ''p/index.json'' =
     Some ''name=;icon=;description=''"
proof -
  let ?E = ex_env_json_no_meta
  let ?U = "UpdateIndex ?E ex_indexer Map.empty ex_opts"
  have bad: "os_Open ?E (MetadataPath ex_opts) \<noteq> None"
    by (simp add: ex_env_json_no_meta_def ex_opts_def)
  then have bad': "os_Open ?E (MetadataPath ex_opts) \<noteq> None \<or>
      (\<exists>err. yaml_Decode ?E (MetadataPath ex_opts) = Inl err)" by blast
  note t = unloadable_descriptor_empties_display_fields[OF bad', where b = Map.empty and i = ex_indexer]
  from t have z: "LoadMetadata ?E (MetadataPath ex_opts) = PluginMeta_zero" by blast
  have plug: "opts_Plugin ex_opts = ''p''" by (simp add: ex_opts_def)
  have gi: "getPluginIndex ?E Map.empty (opts_Plugin ex_opts) = Inr ex_fresh"
    by (simp add: plug ex_getPluginIndex_fresh ex_env_json_no_meta_def ex_env_json_def ex_env_def)
  have ne: "ToReleases ex_opts \<noteq> []" by (simp add: ex_ToReleases)
  have ok: "\<forall>r\<in>set (ToReleases ex_opts). Plugin r = ID ex_fresh \<longrightarrow>
      os_Open ?E (Path r) = None \<and> io_Copy_err ?E (Path r) = None"
    by (simp add: ex_ToReleases ex_release_def ex_env_json_no_meta_def ex_env_json_def ex_env_def)
  have m1: "\<forall>x. \<exists>body. json_Marshal_PluginIndex ?E x = Inr body"
    by (simp add: ex_env_json_no_meta_def ex_env_json_def ex_env_def)
  have m2: "\<forall>x. \<exists>body. json_Marshal_RegistryIndex ?E x = Inr body"
    by (simp add: ex_env_json_no_meta_def ex_env_json_def ex_env_def)
  have st: "\<forall>key. s3_PutObject_err ?E key = None \<and> s3_Wait_err ?E key = None"
    by (simp add: ex_env_json_no_meta_def ex_env_json_def ex_env_def)
  have gr: "\<forall>body. \<exists>registryIndex.
      getRegistryIndex ?E (Map.empty(PluginIndex_BucketPath x \<mapsto> body)) = Inr registryIndex" for x
    using PluginIndex_BucketPath_not_root[of x] PluginIndex_BucketPath_not_root[of x, symmetric]
    by (simp add: getRegistryIndex_def s3_GetObject_def ex_env_json_no_meta_def ex_env_json_def
        ex_env_def)
  from t have live: "\<forall>index. getPluginIndex ?E Map.empty (opts_Plugin ex_opts) = Inr index \<longrightarrow>
      ToReleases ex_opts \<noteq> [] \<longrightarrow>
      (\<forall>r\<in>set (ToReleases ex_opts). Plugin r = ID index \<longrightarrow>
          os_Open ?E (Path r) = None \<and> io_Copy_err ?E (Path r) = None) \<longrightarrow>
      (\<exists>pluginIndex.
          updateIndex ?E index (ToReleases ex_opts) (LoadMetadata ?E (MetadataPath ex_opts)) = Returned pluginIndex \<and>
          ((\<forall>x. \<exists>body. json_Marshal_PluginIndex ?E x = Inr body) \<longrightarrow>
           (\<forall>x. \<exists>body. json_Marshal_RegistryIndex ?E x = Inr body) \<longrightarrow>
           (\<forall>key. s3_PutObject_err ?E key = None \<and> s3_Wait_err ?E key = None) \<longrightarrow>
           (\<forall>body. \<exists>registryIndex.
               getRegistryIndex ?E (Map.empty(PluginIndex_BucketPath pluginIndex \<mapsto> body)) = Inr registryIndex) \<longrightarrow>
           fst ?U = Returned None))"
    by blast
  from live[rule_format, OF gi ne] ok obtain pluginIndex where
    "(\<forall>x. \<exists>body. json_Marshal_PluginIndex ?E x = Inr body) \<longrightarrow>
           (\<forall>x. \<exists>body. json_Marshal_RegistryIndex ?E x = Inr body) \<longrightarrow>
           (\<forall>key. s3_PutObject_err ?E key = None \<and> s3_Wait_err ?E key = None) \<longrightarrow>
           (\<forall>body. \<exists>registryIndex.
               getRegistryIndex ?E (Map.empty(PluginIndex_BucketPath pluginIndex \<mapsto> body)) = Inr registryIndex) \<longrightarrow>
           fst ?U = Returned None"
    by blast
  with m1 m2 st gr[of pluginIndex] have nil: "fst ?U = Returned None" by blast
  then have run: "?U = (Returned None, snd ?U)" by (simp add: prod_eq_iff)
  from t run obtain index pluginIndex body where
    h: "getPluginIndex ?E Map.empty (opts_Plugin ex_opts) = Inr index"
       "ID pluginIndex = ID index"
       "json_Marshal_PluginIndex ?E pluginIndex = Inr body"
       "snd ?U (PluginIndex_BucketPath pluginIndex) = Some body"
       "Name pluginIndex = []" "Icon pluginIndex = []" "Description pluginIndex = []"
    by blast
  from h(1) gi have "index = ex_fresh" by simp
  with h(2) have key: "PluginIndex_BucketPath pluginIndex = ''p/index.json''"
    by (simp add: PluginIndex_BucketPath_def ex_fresh_def)
  from h(3,5,6,7) have "body = ''name=;icon=;description=''"
    by (simp add: ex_env_json_no_meta_def ex_env_json_def ex_env_def)
  with h(4) key have w: "snd ?U ''p/index.json'' = Some ''name=;icon=;description=''" by simp
  from bad z nil w show ?thesis by blast
qed

end
